theory Spec2Isabelle
  imports Complex_Main
begin

section \<open>JavaScript values, errors and effects\<close>

text \<open>
  The repository is a TypeScript wallet bridge: \<^verbatim>\<open>lib/blockchain.ts\<close> (token operations,
  network checks, network switch) and the \<^verbatim>\<open>WalletConnectButton\<close> component. The
  functions are asynchronous wrappers around wallet objects and chain SDKs. Each one is
  embedded as a function that returns the trace of what it did to the outside world
  (console output, contract constructions, contract calls, wallet requests, host
  callbacks) together with its outcome: \<open>Inl e\<close> when the source throws (or the promise
  rejects with) \<open>e\<close>, \<open>Inr v\<close> when it returns \<open>v\<close>. The objects the code receives from
  the wallets and SDKs are records of the fields the code reads; a field that may be
  missing is an \<open>option\<close>, a method is a function giving the SDK's answer.
\<close>

text \<open>
  A thrown value is a string or an object. Of an object the code reads \<^verbatim>\<open>shortMessage\<close>,
  \<^verbatim>\<open>message\<close> and \<^verbatim>\<open>code\<close>, and prints it with \<^verbatim>\<open>JSON.stringify\<close>.
\<close>

record error_object =
  shortMessage :: "string option"
  message :: "string option"
  code :: "int option"
  json :: string

datatype js_error = ThrownString string | ThrownObject error_object

text \<open>\<^verbatim>\<open>new Error(msg)\<close>: only \<^verbatim>\<open>message\<close> is set; \<^verbatim>\<open>JSON.stringify\<close> of it is \<^verbatim>\<open>{}\<close>.\<close>

definition new_Error :: "string \<Rightarrow> js_error" where
  "new_Error msg =
     ThrownObject \<lparr>shortMessage = None, message = Some msg, code = None, json = ''{}''\<rparr>"

text \<open>The \<^verbatim>\<open>RangeError\<close>, \<^verbatim>\<open>SyntaxError\<close> and \<^verbatim>\<open>TypeError\<close> of the built-ins are error
  objects with a message as well.\<close>

definition RangeError :: "string \<Rightarrow> js_error" where
  "RangeError msg = new_Error msg"

definition SyntaxError :: "string \<Rightarrow> js_error" where
  "SyntaxError msg = new_Error msg"

definition TypeError :: "string \<Rightarrow> js_error" where
  "TypeError msg = new_Error msg"

text \<open>Truthiness of an optional string: \<^verbatim>\<open>undefined\<close>, \<^verbatim>\<open>null\<close> and \<^verbatim>\<open>""\<close> are falsy.\<close>

fun truthy :: "string option \<Rightarrow> bool" where
  "truthy None = False"
| "truthy (Some s) = (s \<noteq> [])"

text \<open>\<^verbatim>\<open>a || b\<close> on optional strings.\<close>

definition or_else :: "string option \<Rightarrow> string option \<Rightarrow> string option" where
  "or_else a b = (if truthy a then a else b)"

text \<open>\<^verbatim>\<open>a || 'literal'\<close>.\<close>

definition or_default :: "string option \<Rightarrow> string \<Rightarrow> string" where
  "or_default a d = (case a of Some s \<Rightarrow> (if s \<noteq> [] then s else d) | None \<Rightarrow> d)"

text \<open>Property reads on a caught value; a string has none of the three properties.\<close>

fun err_shortMessage :: "js_error \<Rightarrow> string option" where
  "err_shortMessage (ThrownString s) = None"
| "err_shortMessage (ThrownObject ob) = shortMessage ob"

fun err_message :: "js_error \<Rightarrow> string option" where
  "err_message (ThrownString s) = None"
| "err_message (ThrownObject ob) = message ob"

fun err_code :: "js_error \<Rightarrow> int option" where
  "err_code (ThrownString s) = None"
| "err_code (ThrownObject ob) = code ob"

datatype Chain = BSC | TRON

text \<open>A chain id is a JavaScript number or string (\<^verbatim>\<open>number | string\<close>); \<^verbatim>\<open>===\<close> on two
  of them is equality of the values, and a number never equals a string.\<close>

datatype chain_id = NumId int | StrId string

fun chain_id_truthy :: "chain_id option \<Rightarrow> bool" where
  "chain_id_truthy None = False"
| "chain_id_truthy (Some (NumId n)) = (n \<noteq> 0)"
| "chain_id_truthy (Some (StrId s)) = (s \<noteq> [])"

text \<open>
  \<^verbatim>\<open>lib/constants\<close> is not among the sources: the two constants the code imports from it
  are parameters of the model.
\<close>

record constants =
  BSC_CHAIN_ID :: chain_id
  ACTIVE_TRON_CHAIN_ID :: chain_id

text \<open>Opaque handles: a provider or signer object is known by its identity only.\<close>

datatype handle = Handle nat

text \<open>
  What a function does to the outside world, in order. Console output is recorded with
  the literal text of the call's first argument. \<^verbatim>\<open>ContractCall\<close> is the invocation of a
  contract method with its arguments; \<^verbatim>\<open>WalletRequest\<close> a JSON-RPC request handed to the
  wallet, with its method and the chain id parameter.
\<close>

datatype event =
    ConsoleLog string
  | ConsoleWarn string
  | ConsoleError string
  | OnConnected string handle Chain bool
  | OnDisconnected
  | Toast string
  | NewContract Chain
  | ContractCall Chain string "string list"
  | WalletRequest string "string list"

type_synonym 'a io = "event list \<times> (js_error + 'a)"

definition io_return :: "'a \<Rightarrow> 'a io" where
  "io_return x = ([], Inr x)"

definition io_throw :: "js_error \<Rightarrow> 'a io" where
  "io_throw e = ([], Inl e)"

definition io_emit :: "event \<Rightarrow> unit io" where
  "io_emit ev = ([ev], Inr ())"

text \<open>Sequencing: the rest runs only when the first part did not throw.\<close>

definition io_bind :: "'a io \<Rightarrow> ('a \<Rightarrow> 'b io) \<Rightarrow> 'b io" where
  "io_bind m f =
     (case m of
        (t, Inl e) \<Rightarrow> (t, Inl e)
      | (t, Inr x) \<Rightarrow> (case f x of (t', r) \<Rightarrow> (t @ t', r)))"

text \<open>\<^verbatim>\<open>try { m } catch (e) { h e }\<close>.\<close>

definition io_catch :: "'a io \<Rightarrow> (js_error \<Rightarrow> 'a io) \<Rightarrow> 'a io" where
  "io_catch m h =
     (case m of
        (t, Inl e) \<Rightarrow> (case h e of (t', r) \<Rightarrow> (t @ t', r))
      | (t, Inr x) \<Rightarrow> (t, Inr x))"

text \<open>The answer of an external call, with the call recorded in the trace.\<close>

definition io_call :: "event \<Rightarrow> (js_error + 'a) \<Rightarrow> 'a io" where
  "io_call ev r = ([ev], r)"

section \<open>Chain identity resolution in the connect button\<close>

text \<open>What the \<^verbatim>\<open>useBlockchain\<close> hook reports to the component.\<close>

record hook_state =
  isConnected :: bool
  account :: "string option"
  provider :: "handle option"
  chainId :: "chain_id option"
  isLoading :: bool

text \<open>
  The classification inside the effect: \<^verbatim>\<open>connectedActualChain\<close> starts as \<^verbatim>\<open>null\<close> and
  \<^verbatim>\<open>wrongNetworkDetected\<close> as \<^verbatim>\<open>false\<close>; the two comparisons assign them.
\<close>

definition classify :: "constants \<Rightarrow> Chain \<Rightarrow> chain_id \<Rightarrow> Chain option \<times> bool" where
  "classify c selectedChain cid =
     (if cid = BSC_CHAIN_ID c then (Some BSC, selectedChain \<noteq> BSC)
      else if cid = ACTIVE_TRON_CHAIN_ID c then (Some TRON, selectedChain \<noteq> TRON)
      else (None, False))"

text \<open>The effect that notifies the host page (\<^verbatim>\<open>useEffect\<close> of \<^verbatim>\<open>WalletConnectButton\<close>).\<close>

definition connection_effect :: "constants \<Rightarrow> Chain \<Rightarrow> hook_state \<Rightarrow> unit io" where
  "connection_effect c selectedChain st =
     (if isConnected st \<and> truthy (account st) \<and> provider st \<noteq> None
           \<and> chain_id_truthy (chainId st)
      then
        (case classify c selectedChain (the (chainId st)) of
           (Some connectedActualChain, wrongNetworkDetected) \<Rightarrow>
             io_emit (OnConnected (the (account st)) (the (provider st))
                        connectedActualChain wrongNetworkDetected)
         | (None, _) \<Rightarrow>
             io_bind (io_emit (ConsoleWarn ''Connected to an unrecognized chain ID:''))
               (\<lambda>_. io_emit (OnConnected (the (account st)) (the (provider st))
                               selectedChain True)))
      else if \<not> isConnected st \<and> \<not> isLoading st then io_emit OnDisconnected
      else io_return ())"

text \<open>
  The connect handler of the button. \<^verbatim>\<open>window.ethereum\<close> is the injected provider, if any;
  its \<^verbatim>\<open>eth_requestAccounts\<close> request answers with the accounts or fails. The handler's
  \<^verbatim>\<open>catch\<close> turns every failure into a toast.
\<close>

record window_ethereum =
  eth_handle :: handle
  eth_requestAccounts :: "js_error + string list"

definition handleConnect ::
  "Chain \<Rightarrow> string option \<Rightarrow> window_ethereum option \<Rightarrow> unit io" where
  "handleConnect selectedChain connectedAddress ethereum =
     (if truthy connectedAddress then io_emit OnDisconnected
      else
        io_catch
          (case ethereum of
             None \<Rightarrow> io_emit (Toast ''Wallet Not Found'')
           | Some eth \<Rightarrow>
               io_bind (io_call (WalletRequest ''eth_requestAccounts'' [])
                          (eth_requestAccounts eth))
                 (\<lambda>accounts.
                    (case accounts of
                       [] \<Rightarrow> io_throw (new_Error ''No accounts found'')
                     | address # _ \<Rightarrow>
                         io_bind (io_emit (OnConnected address (eth_handle eth)
                                             selectedChain False))
                           (\<lambda>_. io_emit (Toast ''Wallet Connected'')))))
          (\<lambda>error. io_bind (io_emit (ConsoleError ''Error connecting wallet:''))
                      (\<lambda>_. io_emit (Toast ''Connection Failed''))))"

text \<open>The chain and the flag a trace reports to the host page, if it reports a connection.\<close>

fun reported :: "event list \<Rightarrow> (Chain \<times> bool) option" where
  "reported [] = None"
| "reported (OnConnected a p ch w # es) = Some (ch, w)"
| "reported (e # es) = reported es"

fun warnings :: "event list \<Rightarrow> string list" where
  "warnings [] = []"
| "warnings (ConsoleWarn s # es) = s # warnings es"
| "warnings (e # es) = warnings es"

section \<open>Strings, numbers and big integers of the language\<close>

subsection \<open>Strings\<close>

text \<open>Strings are ASCII; \<^verbatim>\<open>toLowerCase\<close> maps \<^verbatim>\<open>A\<close>..\<^verbatim>\<open>Z\<close> to \<^verbatim>\<open>a\<close>..\<^verbatim>\<open>z\<close>.\<close>

definition to_lower :: "char \<Rightarrow> char" where
  "to_lower c =
     (let n = (of_char c :: nat) in if 65 \<le> n \<and> n \<le> 90 then char_of (n + 32) else c)"

definition toLowerCase :: "string \<Rightarrow> string" where
  "toLowerCase s = map to_lower s"

fun starts_with :: "string \<Rightarrow> string \<Rightarrow> bool" where
  "starts_with s [] = True"
| "starts_with [] (p # ps) = False"
| "starts_with (c # cs) (p # ps) = (c = p \<and> starts_with cs ps)"

text \<open>\<^verbatim>\<open>s.includes(pat)\<close>: \<open>pat\<close> occurs in \<open>s\<close> at some position.\<close>

fun str_includes :: "string \<Rightarrow> string \<Rightarrow> bool" where
  "str_includes [] pat = (pat = [])"
| "str_includes (c # cs) pat = (starts_with (c # cs) pat \<or> str_includes cs pat)"

text \<open>\<^verbatim>\<open>s.padStart(n, '0')\<close>.\<close>

definition padStart :: "nat \<Rightarrow> string \<Rightarrow> string" where
  "padStart n s = replicate (n - length s) (CHR ''0'') @ s"

text \<open>\<^verbatim>\<open>s.replace(/0+$/, '')\<close>: the trailing zeros are removed.\<close>

definition strip_trailing_zeros :: "string \<Rightarrow> string" where
  "strip_trailing_zeros s = rev (dropWhile (\<lambda>c. c = CHR ''0'') (rev s))"

definition is_digit :: "char \<Rightarrow> bool" where
  "is_digit c = (let n = (of_char c :: nat) in 48 \<le> n \<and> n \<le> 57)"

definition digit_val :: "char \<Rightarrow> nat" where
  "digit_val c = of_char c - 48"

text \<open>White space and line terminators of the language, within ASCII.\<close>

definition is_space :: "char \<Rightarrow> bool" where
  "is_space c = (let n = (of_char c :: nat) in n = 32 \<or> (9 \<le> n \<and> n \<le> 13))"

text \<open>The value of a string of digits in a radix, most significant digit first.\<close>

definition digits_value :: "nat \<Rightarrow> nat list \<Rightarrow> nat" where
  "digits_value radix ds = foldl (\<lambda>acc d. radix * acc + d) 0 ds"

definition decimal_value :: "string \<Rightarrow> nat" where
  "decimal_value s = digits_value 10 (map digit_val s)"

text \<open>Printing in a radix up to 16, as \<^verbatim>\<open>toString(radix)\<close> of a big integer does.\<close>

definition digit_char :: "nat \<Rightarrow> char" where
  "digit_char d = ''0123456789abcdef'' ! d"

fun show_nat_radix :: "nat \<Rightarrow> nat \<Rightarrow> string" where
  "show_nat_radix radix n =
     (if radix < 2 \<or> n < radix then [digit_char n]
      else show_nat_radix radix (n div radix) @ [digit_char (n mod radix)])"

declare show_nat_radix.simps [simp del]

definition show_int_radix :: "nat \<Rightarrow> int \<Rightarrow> string" where
  "show_int_radix radix i =
     (if i < 0 then CHR ''-'' # show_nat_radix radix (nat (- i))
      else show_nat_radix radix (nat i))"

text \<open>\<^verbatim>\<open>b.toString()\<close> of a big integer \<open>b\<close>, and of an integral number.\<close>

definition BigInt_toString :: "int \<Rightarrow> string" where
  "BigInt_toString i = show_int_radix 10 i"

subsection \<open>Big integers from strings\<close>

text \<open>
  \<^verbatim>\<open>BigInt(s)\<close> for a string: white space is trimmed at both ends; the empty string is
  \<open>0\<close>; \<^verbatim>\<open>0x\<close>, \<^verbatim>\<open>0o\<close> and \<^verbatim>\<open>0b\<close> introduce an unsigned literal in that radix; otherwise
  the string is decimal digits with an optional sign. Anything else is a \<^verbatim>\<open>SyntaxError\<close>.
\<close>

definition trim :: "string \<Rightarrow> string" where
  "trim s = rev (dropWhile is_space (rev (dropWhile is_space s)))"

definition radix_digit :: "nat \<Rightarrow> char \<Rightarrow> nat option" where
  "radix_digit radix c =
     (let n = (of_char c :: nat);
          d = (if 48 \<le> n \<and> n \<le> 57 then Some (n - 48)
               else if 97 \<le> n \<and> n \<le> 102 then Some (n - 87)
               else if 65 \<le> n \<and> n \<le> 70 then Some (n - 55)
               else None)
      in case d of Some v \<Rightarrow> (if v < radix then Some v else None) | None \<Rightarrow> None)"

definition parse_radix :: "nat \<Rightarrow> string \<Rightarrow> nat option" where
  "parse_radix radix s =
     (if s \<noteq> [] \<and> list_all (\<lambda>c. radix_digit radix c \<noteq> None) s
      then Some (digits_value radix (map (\<lambda>c. the (radix_digit radix c)) s))
      else None)"

definition cannot_convert :: "string \<Rightarrow> js_error" where
  "cannot_convert s = SyntaxError (''Cannot convert '' @ s @ '' to a BigInt'')"

definition StringToBigInt :: "string \<Rightarrow> js_error + int" where
  "StringToBigInt str =
     (let s = trim str in
      if s = [] then Inr 0
      else if starts_with s ''0x'' \<or> starts_with s ''0X'' then
        (case parse_radix 16 (drop 2 s) of Some n \<Rightarrow> Inr (int n) | None \<Rightarrow> Inl (cannot_convert str))
      else if starts_with s ''0o'' \<or> starts_with s ''0O'' then
        (case parse_radix 8 (drop 2 s) of Some n \<Rightarrow> Inr (int n) | None \<Rightarrow> Inl (cannot_convert str))
      else if starts_with s ''0b'' \<or> starts_with s ''0B'' then
        (case parse_radix 2 (drop 2 s) of Some n \<Rightarrow> Inr (int n) | None \<Rightarrow> Inl (cannot_convert str))
      else if starts_with s ''-'' then
        (case parse_radix 10 (drop 1 s) of Some n \<Rightarrow> Inr (- int n) | None \<Rightarrow> Inl (cannot_convert str))
      else if starts_with s ''+'' then
        (case parse_radix 10 (drop 1 s) of Some n \<Rightarrow> Inr (int n) | None \<Rightarrow> Inl (cannot_convert str))
      else
        (case parse_radix 10 s of Some n \<Rightarrow> Inr (int n) | None \<Rightarrow> Inl (cannot_convert str)))"

text \<open>Division and remainder of big integers truncate towards zero; the remainder has the
  sign of the dividend.\<close>

definition BigInt_div :: "int \<Rightarrow> int \<Rightarrow> int" where
  "BigInt_div a b = sgn a * sgn b * (\<bar>a\<bar> div \<bar>b\<bar>)"

definition BigInt_rem :: "int \<Rightarrow> int \<Rightarrow> int" where
  "BigInt_rem a b = sgn a * (\<bar>a\<bar> mod \<bar>b\<bar>)"

subsection \<open>Numbers: IEEE 754 binary64\<close>

text \<open>
  A number of the language is a binary64 value: a finite one is the rational it denotes
  (the two zeros are not told apart: no operation used here depends on the sign of zero).
\<close>

datatype js_number = Finite rat | PosInfinity | NegInfinity | NaN

text \<open>The number of binary digits of a natural number.\<close>

fun bit_length :: "nat \<Rightarrow> nat" where
  "bit_length n = (if n = 0 then 0 else Suc (bit_length (n div 2)))"

declare bit_length.simps [simp del]

text \<open>The exponent \<open>e\<close> of a non-zero rational, \<open>2\<^sup>e \<le> |q| < 2\<^sup>e\<^sup>+\<^sup>1\<close>: from the integer part
  of \<open>|q|\<close> when \<open>1 \<le> |q|\<close>, and from that of \<open>1 / |q|\<close> otherwise.\<close>

definition exponent_of :: "rat \<Rightarrow> int" where
  "exponent_of q =
     (if 1 \<le> \<bar>q\<bar> then int (bit_length (nat \<lfloor>\<bar>q\<bar>\<rfloor>)) - 1
      else - int (bit_length (nat (\<lceil>1 / \<bar>q\<bar>\<rceil> - 1))))"

text \<open>Rounding to the nearest integer, a tie to the even one.\<close>

definition round_half_even :: "rat \<Rightarrow> int" where
  "round_half_even q =
     (let f = \<lfloor>q\<rfloor>; r = q - of_int f
      in if r < 1 / 2 then f
         else if 1 / 2 < r then f + 1
         else if even f then f else f + 1)"

text \<open>
  The binary64 value of a rational (round to nearest, ties to even): the significand has
  53 bits, the exponent is at least \<open>-1022\<close> (below it the values are subnormal, with the
  spacing \<open>2\<^sup>-\<^sup>1\<^sup>0\<^sup>7\<^sup>4\<close>), and a result that reaches \<open>2\<^sup>1\<^sup>0\<^sup>2\<^sup>4\<close> is an infinity.
\<close>

definition binary64 :: "rat \<Rightarrow> js_number" where
  "binary64 q =
     (if q = 0 then Finite 0
      else
        let e = max (exponent_of q) (- 1022);
            ulp = 2 powi (e - 52);
            r = of_int (round_half_even (q / ulp)) * ulp
        in if 2 ^ 1024 \<le> \<bar>r\<bar> then (if 0 < q then PosInfinity else NegInfinity)
           else Finite r)"

text \<open>Multiplication of two numbers.\<close>

fun js_times :: "js_number \<Rightarrow> js_number \<Rightarrow> js_number" where
  "js_times (Finite a) (Finite b) = binary64 (a * b)"
| "js_times NaN y = NaN"
| "js_times x NaN = NaN"
| "js_times (Finite a) PosInfinity =
     (if a = 0 then NaN else if 0 < a then PosInfinity else NegInfinity)"
| "js_times (Finite a) NegInfinity =
     (if a = 0 then NaN else if 0 < a then NegInfinity else PosInfinity)"
| "js_times PosInfinity (Finite b) =
     (if b = 0 then NaN else if 0 < b then PosInfinity else NegInfinity)"
| "js_times NegInfinity (Finite b) =
     (if b = 0 then NaN else if 0 < b then NegInfinity else PosInfinity)"
| "js_times PosInfinity PosInfinity = PosInfinity"
| "js_times PosInfinity NegInfinity = NegInfinity"
| "js_times NegInfinity PosInfinity = NegInfinity"
| "js_times NegInfinity NegInfinity = PosInfinity"

text \<open>\<^verbatim>\<open>10 ** n\<close> for the small \<open>n\<close> used here is the exact power.\<close>

definition ten_pow :: "nat \<Rightarrow> js_number" where
  "ten_pow n = binary64 (10 ^ n)"

text \<open>\<^verbatim>\<open>Math.round\<close>: the nearest integer, a tie towards \<open>+\<infinity>\<close>.\<close>

fun Math_round :: "js_number \<Rightarrow> js_number" where
  "Math_round (Finite q) = Finite (of_int \<lfloor>q + 1 / 2\<rfloor>)"
| "Math_round x = x"

text \<open>\<^verbatim>\<open>BigInt(x)\<close> for a number: a \<^verbatim>\<open>RangeError\<close> unless \<open>x\<close> is an integer.\<close>

definition not_an_integer :: "string \<Rightarrow> js_error" where
  "not_an_integer x =
     RangeError (''The number '' @ x
        @ '' cannot be converted to a BigInt because it is not an integer'')"

text \<open>The message names the number; the text of a finite number that is not an integer
  is not modelled (after \<^verbatim>\<open>Math.round\<close> there is none).\<close>

fun NumberToBigInt :: "js_number \<Rightarrow> js_error + int" where
  "NumberToBigInt (Finite q) =
     (if of_int \<lfloor>q\<rfloor> = q then Inr \<lfloor>q\<rfloor> else Inl (not_an_integer ''(a fraction)''))"
| "NumberToBigInt PosInfinity = Inl (not_an_integer ''Infinity'')"
| "NumberToBigInt NegInfinity = Inl (not_an_integer ''-Infinity'')"
| "NumberToBigInt NaN = Inl (not_an_integer ''NaN'')"

subsection \<open>\<^verbatim>\<open>parseFloat\<close>\<close>

text \<open>
  \<^verbatim>\<open>parseFloat(s)\<close> skips leading white space and reads the longest prefix that is a
  decimal literal: an optional sign, then \<^verbatim>\<open>Infinity\<close>, or digits with an optional
  fraction, or a fraction alone, each with an optional exponent part. The rest of the
  string is ignored; when there is no such prefix the result is \<^verbatim>\<open>NaN\<close>. The value is
  the binary64 value of the literal.
\<close>

text \<open>The exponent part at the start of a string, if there is one (else \<open>0\<close>).\<close>

definition exponent_part :: "string \<Rightarrow> int" where
  "exponent_part s =
     (case s of
        [] \<Rightarrow> 0
      | c # r \<Rightarrow>
          if c = CHR ''e'' \<or> c = CHR ''E'' then
            (case r of
               [] \<Rightarrow> 0
             | d # r' \<Rightarrow>
                 if d = CHR ''-'' then
                   (let ds = takeWhile is_digit r' in
                    if ds = [] then 0 else - int (decimal_value ds))
                 else if d = CHR ''+'' then
                   (let ds = takeWhile is_digit r' in
                    if ds = [] then 0 else int (decimal_value ds))
                 else
                   (let ds = takeWhile is_digit r in
                    if ds = [] then 0 else int (decimal_value ds)))
          else 0)"

text \<open>The value \<open>m \<sqdot> 10\<^sup>k\<close> of a literal with digits \<open>m\<close> and decimal exponent \<open>k\<close>.\<close>

definition scale10 :: "nat \<Rightarrow> int \<Rightarrow> rat" where
  "scale10 m k = (if 0 \<le> k then of_nat m * 10 ^ nat k else of_nat m / 10 ^ nat (- k))"

definition unsigned_literal :: "string \<Rightarrow> js_number" where
  "unsigned_literal s =
     (if starts_with s ''Infinity'' then PosInfinity
      else
        let ip = takeWhile is_digit s;
            r1 = dropWhile is_digit s;
            has_point = (r1 \<noteq> [] \<and> hd r1 = CHR ''.'');
            fp = (if has_point then takeWhile is_digit (tl r1) else []);
            r2 = (if has_point then dropWhile is_digit (tl r1) else r1)
        in if ip = [] \<and> fp = [] then NaN
           else binary64 (scale10 (decimal_value (ip @ fp))
                            (exponent_part r2 - int (length fp))))"

fun js_negate :: "js_number \<Rightarrow> js_number" where
  "js_negate (Finite q) = Finite (- q)"
| "js_negate PosInfinity = NegInfinity"
| "js_negate NegInfinity = PosInfinity"
| "js_negate NaN = NaN"

definition parseFloat :: "string \<Rightarrow> js_number" where
  "parseFloat str =
     (let s = dropWhile is_space str in
      case s of
        [] \<Rightarrow> NaN
      | c # r \<Rightarrow>
          if c = CHR ''-'' then js_negate (unsigned_literal r)
          else if c = CHR ''+'' then unsigned_literal r
          else unsigned_literal s)"

section \<open>Module configuration of \<^verbatim>\<open>lib/blockchain.ts\<close>\<close>

text \<open>The environment variables the module reads when it is loaded.\<close>

record process_env =
  env_BSC_RPC_URL :: "string option"
  env_BEP20_CONTRACT_ADDRESS :: "string option"
  env_TRON_RPC_URL :: "string option"
  env_TRC20_CONTRACT_ADDRESS :: "string option"
  env_TRONGRID_API_KEY :: "string option"

text \<open>The module-level constants once the module has loaded.\<close>

record module_config =
  NEXT_PUBLIC_BSC_RPC_URL :: string
  BEP20_ADDRESS :: string
  NEXT_PUBLIC_TRON_RPC_URL :: string
  TRC20_ADDRESS_BASE58 :: string
  NEXT_PUBLIC_TRONGRID_API_KEY :: "string option"
  TRC20_ADDRESS_HEX :: string

text \<open>A computation that may throw and does nothing else.\<close>

definition io_lift :: "js_error + 'a \<Rightarrow> 'a io" where
  "io_lift r = ([], r)"

text \<open>
  Loading the module. \<open>toHex\<close> is the address conversion of the Tron SDK on a freshly
  constructed instance (\<^verbatim>\<open>new TronWeb(...).address.toHex\<close>); it answers with the hex
  form or throws.
\<close>

definition module_init :: "(string \<Rightarrow> js_error + string) \<Rightarrow> process_env \<Rightarrow> module_config io" where
  "module_init toHex env =
     (let bsc_rpc_url = or_default (env_BSC_RPC_URL env) ''bsc-testnet-rpc.publicnode.com'' in
      if bsc_rpc_url = [] then
        io_throw (new_Error ''Missing environment variable: NEXT_PUBLIC_BSC_RPC_URL'')
      else if \<not> truthy (env_BEP20_CONTRACT_ADDRESS env) then
        io_throw (new_Error ''Missing environment variable: NEXT_PUBLIC_BEP20_CONTRACT_ADDRESS'')
      else if \<not> truthy (env_TRON_RPC_URL env) then
        io_throw (new_Error ''Missing environment variable: NEXT_PUBLIC_TRON_RPC_URL'')
      else if \<not> truthy (env_TRC20_CONTRACT_ADDRESS env) then
        io_throw (new_Error ''Missing environment variable: NEXT_PUBLIC_TRC20_CONTRACT_ADDRESS'')
      else
        io_bind
          (io_catch (io_lift (toHex (the (env_TRC20_CONTRACT_ADDRESS env))))
             (\<lambda>e. io_bind (io_emit (ConsoleError ''Failed to convert TRC20 address to hex:''))
                    (\<lambda>_. io_throw (new_Error
                       (''Invalid NEXT_PUBLIC_TRC20_CONTRACT_ADDRESS format: ''
                          @ the (env_TRC20_CONTRACT_ADDRESS env))))))
          (\<lambda>hex. io_return
             \<lparr>NEXT_PUBLIC_BSC_RPC_URL = bsc_rpc_url,
              BEP20_ADDRESS = the (env_BEP20_CONTRACT_ADDRESS env),
              NEXT_PUBLIC_TRON_RPC_URL = the (env_TRON_RPC_URL env),
              TRC20_ADDRESS_BASE58 = the (env_TRC20_CONTRACT_ADDRESS env),
              NEXT_PUBLIC_TRONGRID_API_KEY = env_TRONGRID_API_KEY env,
              TRC20_ADDRESS_HEX = hex\<rparr>))"

section \<open>Contract accessors\<close>

text \<open>
  A BEP-20 contract object of the EVM SDK: a method is present when the interface
  definition has it. A method answers with the hash of the transaction it sent
  (\<^verbatim>\<open>tx.hash\<close>), \<^verbatim>\<open>balanceOf\<close> with the balance in base units, or it throws.
\<close>

record bep20_contract =
  bep_mint :: "(string \<Rightarrow> int \<Rightarrow> js_error + string) option"
  bep_burnFrom :: "(string \<Rightarrow> int \<Rightarrow> js_error + string) option"
  bep_balanceOf :: "(string \<Rightarrow> js_error + int) option"

text \<open>The EVM SDK: the contract constructor (address and runner), and the two unit
  conversions. Each answers or throws.\<close>

record ethers_sdk =
  new_Contract :: "string \<Rightarrow> handle \<Rightarrow> js_error + bep20_contract"
  parseEther :: "string \<Rightarrow> js_error + int"
  formatEther :: "int \<Rightarrow> js_error + string"

definition getBep20Contract :: "ethers_sdk \<Rightarrow> module_config \<Rightarrow> handle option \<Rightarrow> bep20_contract io" where
  "getBep20Contract sdk cfg signerOrProvider =
     (case signerOrProvider of
        None \<Rightarrow> io_throw (new_Error
          ''Signer or Provider is required to instantiate BEP20 contract.'')
      | Some h \<Rightarrow> io_call (NewContract BSC) (new_Contract sdk (BEP20_ADDRESS cfg) h))"

text \<open>
  The injected Tron instance, as far as the code reads it. A TRC-20 method answers with
  what \<^verbatim>\<open>send\<close> resolves to (a transaction id when it is a string, \<open>None\<close> for any
  other value); \<^verbatim>\<open>balanceOf\<close> answers with the text of the raw balance
  (\<^verbatim>\<open>rawBalance.toString()\<close>).
\<close>

record TronWebAddress =
  base58 :: "string option"
  hex :: "string option"

record tron_methods =
  trc_mint :: "(string \<Rightarrow> string \<Rightarrow> js_error + string option) option"
  trc_burn :: "(string \<Rightarrow> string \<Rightarrow> js_error + string option) option"
  trc_balanceOf :: "(string \<Rightarrow> js_error + string) option"

record tron_contract =
  methods :: "tron_methods option"

record FullNode =
  host :: "string option"

record TronWebInstance =
  defaultAddress :: "TronWebAddress option"
  contract :: "(string \<Rightarrow> js_error + tron_contract option) option"
  fullNode :: "FullNode option"

text \<open>\<^verbatim>\<open>tronWebInstance?.defaultAddress?.base58\<close> is truthy.\<close>

definition has_base58 :: "TronWebInstance option \<Rightarrow> bool" where
  "has_base58 tronWebInstance =
     (case tronWebInstance of
        None \<Rightarrow> False
      | Some i \<Rightarrow> (case defaultAddress i of None \<Rightarrow> False | Some a \<Rightarrow> truthy (base58 a)))"

text \<open>\<^verbatim>\<open>getTrc20Contract\<close>: the result is a contract whose \<^verbatim>\<open>methods\<close> are present, given
  here by those methods.\<close>

definition getTrc20Contract :: "module_config \<Rightarrow> TronWebInstance option \<Rightarrow> tron_methods io" where
  "getTrc20Contract cfg tronWebInstance =
     (case (case tronWebInstance of None \<Rightarrow> None | Some i \<Rightarrow> contract i) of
        None \<Rightarrow> io_throw (new_Error
          ''TronWeb instance or its 'contract' method is not available.'')
      | Some lookup \<Rightarrow>
          io_catch
            (io_bind (io_call (NewContract TRON) (lookup (TRC20_ADDRESS_HEX cfg)))
               (\<lambda>c. case (case c of None \<Rightarrow> None | Some c' \<Rightarrow> methods c') of
                      None \<Rightarrow> io_throw (new_Error
                        (''Failed to initialize TRC20 contract instance at ''
                           @ TRC20_ADDRESS_BASE58 cfg @ ''. Check ABI and address.''))
                    | Some ms \<Rightarrow> io_return ms))
            (\<lambda>error. io_bind (io_emit (ConsoleError ''Error getting TRC20 contract instance:''))
                        (\<lambda>_. io_throw error)))"

section \<open>Token operations\<close>

subsection \<open>Amounts\<close>

definition tokenDecimals :: nat where
  "tokenDecimals = 6"

text \<open>\<^verbatim>\<open>BigInt(Math.round(parseFloat(amount) * (10 ** tokenDecimals))).toString()\<close>.\<close>

definition rawAmount_of :: "nat \<Rightarrow> string \<Rightarrow> js_error + string" where
  "rawAmount_of decimals amount =
     (case NumberToBigInt (Math_round (js_times (parseFloat amount) (ten_pow decimals))) of
        Inl e \<Rightarrow> Inl e
      | Inr b \<Rightarrow> Inr (BigInt_toString b))"

text \<open>The display form of a raw balance, as \<^verbatim>\<open>getTrc20Balance\<close> computes it from the
  text of the balance.\<close>

definition format_balance :: "nat \<Rightarrow> string \<Rightarrow> js_error + string" where
  "format_balance decimals rawBalance =
     (case StringToBigInt rawBalance of
        Inl e \<Rightarrow> Inl e
      | Inr balanceBigInt \<Rightarrow>
          (case NumberToBigInt (ten_pow decimals) of
             Inl e \<Rightarrow> Inl e
           | Inr divisor \<Rightarrow>
               let integerPart = BigInt_toString (BigInt_div balanceBigInt divisor);
                   fractionalPart =
                     padStart decimals (BigInt_toString (BigInt_rem balanceBigInt divisor));
                   trimmedFractional = strip_trailing_zeros fractionalPart
               in Inr (if trimmedFractional \<noteq> [] then integerPart @ ''.'' @ trimmedFractional
                       else integerPart)))"

text \<open>The message of a caught value in the Tron operations:
  \<^verbatim>\<open>typeof error === 'string' ? error : (error.message || JSON.stringify(error))\<close>, and
  the fallback text when that is empty.\<close>

definition tron_error_message :: "js_error \<Rightarrow> string \<Rightarrow> string" where
  "tron_error_message error fallback =
     (let errorMessage =
            (case error of
               ThrownString s \<Rightarrow> s
             | ThrownObject ob \<Rightarrow> or_default (message ob) (json ob))
      in if errorMessage \<noteq> [] then errorMessage else fallback)"

text \<open>The message of a caught value in the EVM operations:
  \<^verbatim>\<open>error.shortMessage || error.message || fallback\<close>.\<close>

definition evm_error_message :: "js_error \<Rightarrow> string \<Rightarrow> string" where
  "evm_error_message error fallback =
     or_default (or_else (err_shortMessage error) (err_message error)) fallback"

text \<open>The sanity check on a Tron transaction id.\<close>

definition valid_txID :: "string option \<Rightarrow> bool" where
  "valid_txID txID = (case txID of None \<Rightarrow> False | Some t \<Rightarrow> t \<noteq> [] \<and> 60 \<le> length t)"

subsection \<open>Mint\<close>

definition mintBep20Tokens ::
  "ethers_sdk \<Rightarrow> module_config \<Rightarrow> handle option \<Rightarrow> string \<Rightarrow> string \<Rightarrow> string io" where
  "mintBep20Tokens sdk cfg signer recipient amount =
     (case signer of
        None \<Rightarrow> io_throw (new_Error
          ''A connected Signer (wallet) is required for minting BEP-20 tokens.'')
      | Some s \<Rightarrow>
          io_bind (getBep20Contract sdk cfg signer)
            (\<lambda>contract.
               io_catch
                 (io_bind (io_lift (parseEther sdk amount))
                    (\<lambda>amountWei.
                       io_bind (io_emit (ConsoleLog ''Minting BEP20''))
                         (\<lambda>_. io_bind
                            (case bep_mint contract of
                               None \<Rightarrow> io_throw (TypeError ''contract.mint is not a function'')
                             | Some f \<Rightarrow>
                                 io_call (ContractCall BSC ''mint''
                                            [recipient, BigInt_toString amountWei])
                                   (f recipient amountWei))
                            (\<lambda>tx_hash. io_bind (io_emit (ConsoleLog ''BEP20 Mint Tx Sent:''))
                                          (\<lambda>_. io_return tx_hash)))))
                 (\<lambda>error. io_bind (io_emit (ConsoleError ''BEP20 Minting Error:''))
                             (\<lambda>_. io_throw (new_Error
                                (evm_error_message error ''BEP-20 minting failed''))))))"

definition mintTrc20Tokens ::
  "module_config \<Rightarrow> TronWebInstance option \<Rightarrow> string \<Rightarrow> string \<Rightarrow> string io" where
  "mintTrc20Tokens cfg tronWebInstance recipient amount =
     (if \<not> has_base58 tronWebInstance then
        io_throw (new_Error
          ''TronLink wallet instance with address is required for minting TRC-20 tokens.'')
      else
        io_catch
          (io_bind (getTrc20Contract cfg tronWebInstance)
             (\<lambda>ms. io_bind (io_lift (rawAmount_of tokenDecimals amount))
                (\<lambda>rawAmount.
                   io_bind (io_emit (ConsoleLog ''Minting TRC20''))
                     (\<lambda>_. case trc_mint ms of
                            None \<Rightarrow> io_throw (new_Error
                              ''Contract ABI doesn't seem to have a 'mint(address,uint256)' function.'')
                          | Some f \<Rightarrow>
                              io_bind (io_call (ContractCall TRON ''mint'' [recipient, rawAmount])
                                         (f recipient rawAmount))
                                (\<lambda>txID.
                                   io_bind (io_emit (ConsoleLog ''TRC20 Mint Tx Sent:''))
                                     (\<lambda>_. if \<not> valid_txID txID then
                                            io_throw (new_Error
                                              ''Invalid or missing transaction ID received from TronLink.'')
                                          else io_return (the txID)))))))
          (\<lambda>error. io_bind (io_emit (ConsoleError ''TRC20 Minting Error:''))
                      (\<lambda>_. io_throw (new_Error
                         (tron_error_message error ''TRC-20 minting failed'')))))"

subsection \<open>Burn\<close>

definition burnBep20Tokens ::
  "ethers_sdk \<Rightarrow> module_config \<Rightarrow> handle option \<Rightarrow> string \<Rightarrow> string \<Rightarrow> string io" where
  "burnBep20Tokens sdk cfg signer targetAddress amount =
     (case signer of
        None \<Rightarrow> io_throw (new_Error
          ''A connected Signer (wallet) is required for burning BEP-20 tokens.'')
      | Some s \<Rightarrow>
          io_bind (getBep20Contract sdk cfg signer)
            (\<lambda>contract.
               io_catch
                 (io_bind (io_lift (parseEther sdk amount))
                    (\<lambda>amountWei.
                       io_bind (io_emit (ConsoleLog ''Burning BEP20''))
                         (\<lambda>_. case bep_burnFrom contract of
                                None \<Rightarrow> io_throw (new_Error
                                  ''The 'burnFrom(address,uint256)' function is not available on this BEP20 contract instance. Check ABI/Contract.'')
                              | Some f \<Rightarrow>
                                  io_bind
                                    (io_call (ContractCall BSC ''burnFrom''
                                                [targetAddress, BigInt_toString amountWei])
                                       (f targetAddress amountWei))
                                    (\<lambda>tx_hash.
                                       io_bind (io_emit (ConsoleLog ''BEP20 Burn Tx Sent:''))
                                         (\<lambda>_. io_return tx_hash)))))
                 (\<lambda>error. io_bind (io_emit (ConsoleError ''BEP20 Burning Error:''))
                             (\<lambda>_. io_throw (new_Error
                                (evm_error_message error ''BEP-20 burning failed''))))))"

definition burnTrc20Tokens ::
  "module_config \<Rightarrow> TronWebInstance option \<Rightarrow> string \<Rightarrow> string \<Rightarrow> string io" where
  "burnTrc20Tokens cfg tronWebInstance targetAddress amount =
     (if \<not> has_base58 tronWebInstance then
        io_throw (new_Error
          ''TronLink wallet instance with address is required for burning TRC-20 tokens.'')
      else
        io_catch
          (io_bind (getTrc20Contract cfg tronWebInstance)
             (\<lambda>ms. io_bind (io_lift (rawAmount_of tokenDecimals amount))
                (\<lambda>rawAmount.
                   io_bind (io_emit (ConsoleLog ''Burning TRC20''))
                     (\<lambda>_. case trc_burn ms of
                            None \<Rightarrow> io_throw (new_Error
                              ''Contract ABI doesn't seem to have a 'burn(address,uint256)' function. Check ABI/Contract.'')
                          | Some f \<Rightarrow>
                              io_bind (io_call (ContractCall TRON ''burn'' [targetAddress, rawAmount])
                                         (f targetAddress rawAmount))
                                (\<lambda>txID.
                                   io_bind (io_emit (ConsoleLog ''TRC20 Burn Tx Sent:''))
                                     (\<lambda>_. if \<not> valid_txID txID then
                                            io_throw (new_Error
                                              ''Invalid or missing transaction ID received from TronLink.'')
                                          else io_return (the txID)))))))
          (\<lambda>error. io_bind (io_emit (ConsoleError ''TRC20 Burning Error:''))
                      (\<lambda>_. io_throw (new_Error
                         (tron_error_message error ''TRC-20 burning failed'')))))"

subsection \<open>Balance\<close>

text \<open>The \<^verbatim>\<open>provider\<close> argument of \<^verbatim>\<open>getBep20Balance\<close>: the code reads its
  \<^verbatim>\<open>provider\<close> property.\<close>

record provider_object =
  inner_provider :: "handle option"

definition getBep20Balance ::
  "ethers_sdk \<Rightarrow> module_config \<Rightarrow> provider_object option \<Rightarrow> string \<Rightarrow> string io" where
  "getBep20Balance sdk cfg prov address =
     (case prov of
        None \<Rightarrow> io_bind (io_emit (ConsoleError ''Provider required to fetch BEP20 balance.''))
                  (\<lambda>_. io_return ''Error'')
      | Some p \<Rightarrow>
          (case inner_provider p of
             None \<Rightarrow>
               io_bind (io_emit (ConsoleError
                          ''Valid read-only provider could not be obtained for balance check.''))
                 (\<lambda>_. io_return ''Error'')
           | Some readProvider \<Rightarrow>
               io_bind (io_call (NewContract BSC)
                          (new_Contract sdk (BEP20_ADDRESS cfg) readProvider))
                 (\<lambda>contract.
                    io_catch
                      (io_bind
                         (case bep_balanceOf contract of
                            None \<Rightarrow> io_throw (TypeError ''contract.balanceOf is not a function'')
                          | Some f \<Rightarrow> io_call (ContractCall BSC ''balanceOf'' [address]) (f address))
                         (\<lambda>balanceWei. io_lift (formatEther sdk balanceWei)))
                      (\<lambda>error. io_bind (io_emit (ConsoleError ''Error fetching BEP20 balance''))
                                  (\<lambda>_. io_return ''Error'')))))"

definition getTrc20Balance ::
  "module_config \<Rightarrow> TronWebInstance option \<Rightarrow> string \<Rightarrow> string io" where
  "getTrc20Balance cfg tronWebInstance address =
     (case tronWebInstance of
        None \<Rightarrow> io_bind (io_emit (ConsoleError ''TronWeb instance required to fetch TRC20 balance.''))
                  (\<lambda>_. io_return ''Error'')
      | Some i \<Rightarrow>
          io_catch
            (io_bind (getTrc20Contract cfg tronWebInstance)
               (\<lambda>ms. case trc_balanceOf ms of
                       None \<Rightarrow>
                         io_bind (io_emit (ConsoleError
                                    ''TRC20 contract instance missing 'balanceOf' method.''))
                           (\<lambda>_. io_return ''Error'')
                     | Some f \<Rightarrow>
                         io_bind (io_call (ContractCall TRON ''balanceOf'' [address]) (f address))
                           (\<lambda>rawBalance. io_lift (format_balance tokenDecimals rawBalance))))
            (\<lambda>error. io_bind (io_emit (ConsoleError ''Error fetching TRC20 balance''))
                        (\<lambda>_. io_return ''Error'')))"

section \<open>Network check and network switch\<close>

definition mainnetHosts :: "string list" where
  "mainnetHosts = [''api.trongrid.io'', ''api.tronstack.io'']"

definition shastaHosts :: "string list" where
  "shastaHosts = [''api.shasta.trongrid.io'']"

text \<open>\<^verbatim>\<open>tronWebInstance?.fullNode?.host\<close>.\<close>

definition fullNode_host :: "TronWebInstance option \<Rightarrow> string option" where
  "fullNode_host tronWebInstance =
     (case tronWebInstance of
        None \<Rightarrow> None
      | Some i \<Rightarrow> (case fullNode i of None \<Rightarrow> None | Some n \<Rightarrow> host n))"

definition checkTronNetwork :: "constants \<Rightarrow> TronWebInstance option \<Rightarrow> bool io" where
  "checkTronNetwork c tronWebInstance =
     (case fullNode_host tronWebInstance of
        None \<Rightarrow> io_return False
      | Some h \<Rightarrow>
          if h = [] then io_return False
          else
            let nodeHost = toLowerCase h in
            if ACTIVE_TRON_CHAIN_ID c = StrId ''TRON_MAINNET'' then
              io_return (list_ex (\<lambda>known. str_includes nodeHost known) mainnetHosts)
            else if ACTIVE_TRON_CHAIN_ID c = StrId ''TRON_SHASTA'' then
              io_return (list_ex (\<lambda>known. str_includes nodeHost known) shastaHosts)
            else
              io_bind (io_emit (ConsoleWarn ''Unrecognized ACTIVE_TRON_CHAIN_ID''))
                (\<lambda>_. io_return False))"

text \<open>The wallet provider of the switch request: its \<^verbatim>\<open>send\<close> method, when it has one,
  answers a request (method and parameters) or throws.\<close>

record BrowserProvider =
  send :: "(string \<Rightarrow> string list \<Rightarrow> js_error + unit) option"

text \<open>\<^verbatim>\<open>BigInt(chainId)\<close> and the text of \<^verbatim>\<open>chainId\<close> in a template string.\<close>

fun BigInt_of_chain_id :: "chain_id \<Rightarrow> js_error + int" where
  "BigInt_of_chain_id (NumId n) = Inr n"
| "BigInt_of_chain_id (StrId s) = StringToBigInt s"

fun chain_id_text :: "chain_id \<Rightarrow> string" where
  "chain_id_text (NumId n) = BigInt_toString n"
| "chain_id_text (StrId s) = s"

text \<open>The parameters of the add-chain request for BNB Smart Chain.\<close>

definition bsc_chain_params :: "module_config \<Rightarrow> string \<Rightarrow> string list" where
  "bsc_chain_params cfg hexChainId =
     [hexChainId, ''BNB Smart Chain'', ''BNB'', ''BNB'', ''18'',
      NEXT_PUBLIC_BSC_RPC_URL cfg, ''https://bscscan.com'']"

definition requestNetworkSwitch ::
  "constants \<Rightarrow> module_config \<Rightarrow> BrowserProvider option \<Rightarrow> chain_id \<Rightarrow> unit io" where
  "requestNetworkSwitch c cfg prov cid =
     (case (case prov of None \<Rightarrow> None | Some p \<Rightarrow> send p) of
        None \<Rightarrow> io_throw (new_Error
          ''Wallet provider is not available or does not support 'send' method for switching network.'')
      | Some request \<Rightarrow>
          io_bind (io_lift (BigInt_of_chain_id cid))
            (\<lambda>b.
               let hexChainId = ''0x'' @ show_int_radix 16 b in
               io_catch
                 (io_bind (io_emit (ConsoleLog ''Requesting network switch to chainId:''))
                    (\<lambda>_. io_bind
                       (io_call (WalletRequest ''wallet_switchEthereumChain'' [hexChainId])
                          (request ''wallet_switchEthereumChain'' [hexChainId]))
                       (\<lambda>_. io_emit (ConsoleLog ''Successfully requested network switch.''))))
                 (\<lambda>switchError.
                    io_bind (io_emit (ConsoleError ''Network switch error:''))
                      (\<lambda>_. if err_code switchError = Some 4902 then
                             io_bind (io_emit (ConsoleLog
                                        ''Chain not found in wallet, attempting to add...''))
                               (\<lambda>_. io_catch
                                  (if cid = BSC_CHAIN_ID c then
                                     io_bind
                                       (io_call (WalletRequest ''wallet_addEthereumChain''
                                                   (bsc_chain_params cfg hexChainId))
                                          (request ''wallet_addEthereumChain''
                                             (bsc_chain_params cfg hexChainId)))
                                       (\<lambda>_. io_emit (ConsoleLog ''BSC network add request sent.''))
                                   else io_throw (new_Error
                                          (''Configuration to add chainId '' @ chain_id_text cid
                                             @ '' is missing.'')))
                                  (\<lambda>addError.
                                     io_bind (io_emit (ConsoleError ''Failed to add network:''))
                                       (\<lambda>_. io_throw (new_Error
                                          (''Failed to add network: ''
                                             @ or_default (err_message addError)
                                                 ''Unknown error'')))))
                           else io_throw (new_Error
                                  (''Failed to switch network: ''
                                     @ or_default (err_message switchError)
                                         ''User rejected or unknown error''))))))"

text \<open>The contract calls and the wallet requests of a trace.\<close>

fun contract_calls :: "event list \<Rightarrow> event list" where
  "contract_calls [] = []"
| "contract_calls (ContractCall ch m args # es) = ContractCall ch m args # contract_calls es"
| "contract_calls (e # es) = contract_calls es"

fun contract_constructions :: "event list \<Rightarrow> event list" where
  "contract_constructions [] = []"
| "contract_constructions (NewContract ch # es) = NewContract ch # contract_constructions es"
| "contract_constructions (e # es) = contract_constructions es"

fun wallet_requests :: "event list \<Rightarrow> event list" where
  "wallet_requests [] = []"
| "wallet_requests (WalletRequest m ps # es) = WalletRequest m ps # wallet_requests es"
| "wallet_requests (e # es) = wallet_requests es"

section \<open>Example inputs\<close>

text \<open>Concrete configurations, SDK answers and wallet objects, used to instantiate the
  properties below.\<close>

definition example_constants :: constants where
  "example_constants =
     \<lparr>BSC_CHAIN_ID = NumId 56, ACTIVE_TRON_CHAIN_ID = StrId ''TRON_MAINNET''\<rparr>"

definition example_config :: module_config where
  "example_config =
     \<lparr>NEXT_PUBLIC_BSC_RPC_URL = ''https://bsc-dataseed.binance.org'',
      BEP20_ADDRESS = ''0x55d398326f99059fF775485246999027B3197955'',
      NEXT_PUBLIC_TRON_RPC_URL = ''https://api.trongrid.io'',
      TRC20_ADDRESS_BASE58 = ''TR7NHqjeKQxGTCi8q8ZY4pL8otSzgjLj6t'',
      NEXT_PUBLIC_TRONGRID_API_KEY = None,
      TRC20_ADDRESS_HEX = ''41a614f803b6fd780986a42c78ec9c7f77e6ded13c''\<rparr>"

text \<open>An environment with every variable but the EVM RPC URL.\<close>

definition example_env :: process_env where
  "example_env =
     \<lparr>env_BSC_RPC_URL = None,
      env_BEP20_CONTRACT_ADDRESS = Some ''0x55d398326f99059fF775485246999027B3197955'',
      env_TRON_RPC_URL = Some ''https://api.trongrid.io'',
      env_TRC20_CONTRACT_ADDRESS = Some ''TR7NHqjeKQxGTCi8q8ZY4pL8otSzgjLj6t'',
      env_TRONGRID_API_KEY = None\<rparr>"

text \<open>A BEP-20 contract whose interface has neither \<^verbatim>\<open>mint\<close> nor \<^verbatim>\<open>burnFrom\<close>.\<close>

definition bare_bep20 :: bep20_contract where
  "bare_bep20 =
     \<lparr>bep_mint = None, bep_burnFrom = None, bep_balanceOf = Some (\<lambda>a. Inr 0)\<rparr>"

text \<open>An SDK that constructs that contract and reads every amount as \<open>1.5\<close> tokens.\<close>

definition example_sdk :: ethers_sdk where
  "example_sdk =
     \<lparr>new_Contract = (\<lambda>a h. Inr bare_bep20),
      parseEther = (\<lambda>s. Inr 1500000000000000000),
      formatEther = (\<lambda>i. Inr ''0.0'')\<rparr>"

text \<open>An SDK whose contract constructor throws.\<close>

definition failing_sdk :: ethers_sdk where
  "failing_sdk =
     \<lparr>new_Contract =
        (\<lambda>a h. Inl (new_Error ''contract runner does not support name resolution'')),
      parseEther = (\<lambda>s. Inr 1500000000000000000),
      formatEther = (\<lambda>i. Inr ''0.0'')\<rparr>"

text \<open>A Tron instance with an address, whose contract has no \<^verbatim>\<open>burn\<close> method.\<close>

definition bare_trc20 :: tron_methods where
  "bare_trc20 = \<lparr>trc_mint = None, trc_burn = None, trc_balanceOf = None\<rparr>"

definition example_tronWeb :: TronWebInstance where
  "example_tronWeb =
     \<lparr>defaultAddress = Some \<lparr>base58 = Some ''TJRabPrwbZy45sbavfcjinPJC18kjpRTv8'', hex = None\<rparr>,
      contract = Some (\<lambda>a. Inr (Some \<lparr>methods = Some bare_trc20\<rparr>)),
      fullNode = Some \<lparr>host = Some ''https://api.trongrid.io''\<rparr>\<rparr>"

text \<open>A wallet that answers every request with the error code it is given.\<close>

definition refusing_wallet :: "int \<Rightarrow> BrowserProvider" where
  "refusing_wallet error_code =
     \<lparr>send = Some (\<lambda>m ps. Inl (ThrownObject
        \<lparr>shortMessage = None, message = Some ''request refused'', code = Some error_code,
         json = ''{}''\<rparr>))\<rparr>"

section \<open>Properties\<close>

lemmas io_defs =
  io_return_def io_throw_def io_emit_def io_bind_def io_catch_def io_call_def io_lift_def

subsection \<open>Chain identity resolution\<close>

text \<open>The effect on an established connection (all four guards of the effect hold).\<close>

lemma connection_effect_connected:
  assumes "isConnected st" "account st = Some a" "a \<noteq> []" "provider st = Some p"
    "chainId st = Some cid" "chain_id_truthy (Some cid)"
  shows "connection_effect c sel st =
    (if cid = BSC_CHAIN_ID c then ([OnConnected a p BSC (sel \<noteq> BSC)], Inr ())
     else if cid = ACTIVE_TRON_CHAIN_ID c then ([OnConnected a p TRON (sel \<noteq> TRON)], Inr ())
     else ([ConsoleWarn ''Connected to an unrecognized chain ID:'', OnConnected a p sel True], Inr ()))"
  using assms
  by (simp add: connection_effect_def classify_def io_defs)

text \<open>
  Claim C4. For a wallet-reported chain id \<open>cid\<close> on an established connection and every
  selected chain \<open>sel\<close>, the effect reports to the host page: \<open>BSC\<close> with
  \<open>wrongNetwork = (sel \<noteq> BSC)\<close> when the id is the configured EVM chain id; \<open>TRON\<close> with
  \<open>wrongNetwork = (sel \<noteq> TRON)\<close> when it is the configured Tron identifier (and the two
  configured ids differ); otherwise the selected chain with \<open>wrongNetwork = true\<close>, after
  a console warning. In each case the effect returns normally.
\<close>

theorem resolver_cases:
  assumes "isConnected st" "account st = Some a" "a \<noteq> []" "provider st = Some p"
    "chainId st = Some cid" "chain_id_truthy (Some cid)"
  shows "(cid = BSC_CHAIN_ID c \<longrightarrow>
            connection_effect c sel st = ([OnConnected a p BSC (sel \<noteq> BSC)], Inr ()))
       \<and> (cid = ACTIVE_TRON_CHAIN_ID c \<and> cid \<noteq> BSC_CHAIN_ID c \<longrightarrow>
            connection_effect c sel st = ([OnConnected a p TRON (sel \<noteq> TRON)], Inr ()))
       \<and> (cid \<noteq> BSC_CHAIN_ID c \<and> cid \<noteq> ACTIVE_TRON_CHAIN_ID c \<longrightarrow>
            connection_effect c sel st =
              ([ConsoleWarn ''Connected to an unrecognized chain ID:'',
                OnConnected a p sel True], Inr ()))"
  by (simp add: connection_effect_connected [OF assms])

theorem resolver_cases_witness:
  "connection_effect \<lparr>BSC_CHAIN_ID = NumId 56, ACTIVE_TRON_CHAIN_ID = StrId ''TRON_MAINNET''\<rparr> TRON
     \<lparr>isConnected = True, account = Some ''0xabc'', provider = Some (Handle 1),
      chainId = Some (NumId 56), isLoading = False\<rparr>
     = ([OnConnected ''0xabc'' (Handle 1) BSC True], Inr ())
   \<and> connection_effect \<lparr>BSC_CHAIN_ID = NumId 56, ACTIVE_TRON_CHAIN_ID = StrId ''TRON_MAINNET''\<rparr> TRON
     \<lparr>isConnected = True, account = Some ''TXYZ'', provider = Some (Handle 2),
      chainId = Some (StrId ''TRON_MAINNET''), isLoading = False\<rparr>
     = ([OnConnected ''TXYZ'' (Handle 2) TRON False], Inr ())
   \<and> connection_effect \<lparr>BSC_CHAIN_ID = NumId 56, ACTIVE_TRON_CHAIN_ID = StrId ''TRON_MAINNET''\<rparr> BSC
     \<lparr>isConnected = True, account = Some ''0xabc'', provider = Some (Handle 1),
      chainId = Some (NumId 1), isLoading = False\<rparr>
     = ([ConsoleWarn ''Connected to an unrecognized chain ID:'',
         OnConnected ''0xabc'' (Handle 1) BSC True], Inr ())"
  using
    resolver_cases [of "\<lparr>isConnected = True, account = Some ''0xabc'', provider = Some (Handle 1),
      chainId = Some (NumId 56), isLoading = False\<rparr>" "''0xabc''" "Handle 1" "NumId 56"
      "\<lparr>BSC_CHAIN_ID = NumId 56, ACTIVE_TRON_CHAIN_ID = StrId ''TRON_MAINNET''\<rparr>" TRON]
    resolver_cases [of "\<lparr>isConnected = True, account = Some ''TXYZ'', provider = Some (Handle 2),
      chainId = Some (StrId ''TRON_MAINNET''), isLoading = False\<rparr>" "''TXYZ''" "Handle 2"
      "StrId ''TRON_MAINNET''"
      "\<lparr>BSC_CHAIN_ID = NumId 56, ACTIVE_TRON_CHAIN_ID = StrId ''TRON_MAINNET''\<rparr>" TRON]
    resolver_cases [of "\<lparr>isConnected = True, account = Some ''0xabc'', provider = Some (Handle 1),
      chainId = Some (NumId 1), isLoading = False\<rparr>" "''0xabc''" "Handle 1" "NumId 1"
      "\<lparr>BSC_CHAIN_ID = NumId 56, ACTIVE_TRON_CHAIN_ID = StrId ''TRON_MAINNET''\<rparr>" BSC]
  by simp




text \<open>The connect handler of the button reports the selected chain, with the flag
  \<open>false\<close>, without looking at any chain id.\<close>

lemma handleConnect_reports_selection:
  "eth_requestAccounts eth = Inr (address # others) \<Longrightarrow>
   reported (fst (handleConnect sel None (Some eth))) = Some (sel, False)"
  by (simp add: handleConnect_def io_defs)

subsection \<open>The Tron network check\<close>

lemma starts_with_iff: "starts_with s pat \<longleftrightarrow> (\<exists>ss. s = pat @ ss)"
  by (induction s pat rule: starts_with.induct) auto

lemma str_includes_iff: "str_includes s pat \<longleftrightarrow> (\<exists>ps ss. s = ps @ pat @ ss)"
proof (induction s)
  case Nil
  then show ?case by auto
next
  case (Cons c cs)
  show ?case
  proof
    assume "str_includes (c # cs) pat"
    then consider "starts_with (c # cs) pat" | "str_includes cs pat" by auto
    then show "\<exists>ps ss. c # cs = ps @ pat @ ss"
    proof cases
      case 1
      then obtain ss where "c # cs = pat @ ss" by (auto simp: starts_with_iff)
      then have "c # cs = [] @ pat @ ss" by simp
      then show ?thesis by blast
    next
      case 2
      then obtain ps ss where "cs = ps @ pat @ ss" using Cons.IH by auto
      then have "c # cs = (c # ps) @ pat @ ss" by simp
      then show ?thesis by blast
    qed
  next
    assume "\<exists>ps ss. c # cs = ps @ pat @ ss"
    then obtain ps ss where eq: "c # cs = ps @ pat @ ss" by blast
    show "str_includes (c # cs) pat"
    proof (cases ps)
      case Nil
      with eq have "starts_with (c # cs) pat" by (auto simp: starts_with_iff)
      then show ?thesis by simp
    next
      case (Cons p ps')
      with eq have "cs = ps' @ pat @ ss" by simp
      then have "str_includes cs pat" using Cons.IH by blast
      then show ?thesis by simp
    qed
  qed
qed

text \<open>The check, branch by branch.\<close>

lemma checkTronNetwork_eval:
  "checkTronNetwork c inst =
     (case fullNode_host inst of
        None \<Rightarrow> ([], Inr False)
      | Some h \<Rightarrow>
          if h = [] then ([], Inr False)
          else if ACTIVE_TRON_CHAIN_ID c = StrId ''TRON_MAINNET'' then
            ([], Inr (str_includes (toLowerCase h) ''api.trongrid.io''
                       \<or> str_includes (toLowerCase h) ''api.tronstack.io''))
          else if ACTIVE_TRON_CHAIN_ID c = StrId ''TRON_SHASTA'' then
            ([], Inr (str_includes (toLowerCase h) ''api.shasta.trongrid.io''))
          else ([ConsoleWarn ''Unrecognized ACTIVE_TRON_CHAIN_ID''], Inr False))"
  by (simp add: checkTronNetwork_def io_defs Let_def mainnetHosts_def shastaHosts_def
      split: option.splits)

lemma fail_closed_from_eval:
  fixes r :: "bool io"
  assumes "M \<noteq> S"
    and "r = (case ho of
        None \<Rightarrow> ([], Inr False)
      | Some h \<Rightarrow>
          if h = [] then ([], Inr False)
          else if A = M then ([], Inr (str_includes (low h) k1 \<or> str_includes (low h) k2))
          else if A = S then ([], Inr (str_includes (low h) k3))
          else ([w], Inr False))"
  shows "(\<exists>t b. r = (t, Inr b))
   \<and> (ho = None \<or> ho = Some [] \<longrightarrow> snd r = Inr False)
   \<and> (A \<noteq> M \<and> A \<noteq> S \<longrightarrow> snd r = Inr False)
   \<and> (snd r = Inr True \<longleftrightarrow>
        (\<exists>h known ps ss. ho = Some h \<and> h \<noteq> [] \<and> low h = ps @ known @ ss
           \<and> (A = M \<and> (known = k1 \<or> known = k2) \<or> A = S \<and> known = k3)))"
proof (cases ho)
  case None
  with assms show ?thesis by auto
next
  case (Some h)
  show ?thesis
  proof (cases "h = []")
    case True
    with Some assms show ?thesis by auto
  next
    case False
    consider "A = M" | "A \<noteq> M" "A = S" | "A \<noteq> M" "A \<noteq> S" by blast
    then show ?thesis
    proof cases
      case 1
      with Some False assms show ?thesis by (auto simp: str_includes_iff)
    next
      case 2
      with Some False assms show ?thesis by (auto simp: str_includes_iff)
    next
      case 3
      with Some False assms show ?thesis by auto
    qed
  qed
qed

text \<open>
  Claim C10. \<^verbatim>\<open>checkTronNetwork\<close> returns a boolean for every input (it never throws);
  the result is \<open>false\<close> when the instance, its full node or the host is absent (or the
  host is empty), and when the configured Tron chain identifier is neither
  \<^verbatim>\<open>TRON_MAINNET\<close> nor \<^verbatim>\<open>TRON_SHASTA\<close>; it is \<open>true\<close> exactly when the host, in lower
  case, contains one of the known host names of the configured network.
\<close>

theorem checkTronNetwork_fail_closed:
  "(\<exists>t b. checkTronNetwork c inst = (t, Inr b))
   \<and> (fullNode_host inst = None \<or> fullNode_host inst = Some [] \<longrightarrow>
        snd (checkTronNetwork c inst) = Inr False)
   \<and> (ACTIVE_TRON_CHAIN_ID c \<noteq> StrId ''TRON_MAINNET''
        \<and> ACTIVE_TRON_CHAIN_ID c \<noteq> StrId ''TRON_SHASTA'' \<longrightarrow>
        snd (checkTronNetwork c inst) = Inr False)
   \<and> (snd (checkTronNetwork c inst) = Inr True \<longleftrightarrow>
        (\<exists>h known ps ss. fullNode_host inst = Some h \<and> h \<noteq> []
           \<and> toLowerCase h = ps @ known @ ss
           \<and> (ACTIVE_TRON_CHAIN_ID c = StrId ''TRON_MAINNET''
                 \<and> (known = ''api.trongrid.io'' \<or> known = ''api.tronstack.io'')
               \<or> ACTIVE_TRON_CHAIN_ID c = StrId ''TRON_SHASTA''
                 \<and> known = ''api.shasta.trongrid.io'')))"
proof (rule fail_closed_from_eval)
  show "StrId ''TRON_MAINNET'' \<noteq> StrId ''TRON_SHASTA''" by simp
  show "checkTronNetwork c inst =
     (case fullNode_host inst of
        None \<Rightarrow> ([], Inr False)
      | Some h \<Rightarrow>
          if h = [] then ([], Inr False)
          else if ACTIVE_TRON_CHAIN_ID c = StrId ''TRON_MAINNET'' then
            ([], Inr (str_includes (toLowerCase h) ''api.trongrid.io''
                       \<or> str_includes (toLowerCase h) ''api.tronstack.io''))
          else if ACTIVE_TRON_CHAIN_ID c = StrId ''TRON_SHASTA'' then
            ([], Inr (str_includes (toLowerCase h) ''api.shasta.trongrid.io''))
          else ([ConsoleWarn ''Unrecognized ACTIVE_TRON_CHAIN_ID''], Inr False))"
    by (rule checkTronNetwork_eval)
qed

theorem checkTronNetwork_fail_closed_witness:
  "snd (checkTronNetwork \<lparr>BSC_CHAIN_ID = NumId 56, ACTIVE_TRON_CHAIN_ID = StrId ''TRON_MAINNET''\<rparr> None)
     = Inr False
   \<and> snd (checkTronNetwork \<lparr>BSC_CHAIN_ID = NumId 56, ACTIVE_TRON_CHAIN_ID = StrId ''TRON_NILE''\<rparr>
       (Some \<lparr>defaultAddress = None, contract = None,
               fullNode = Some \<lparr>host = Some ''https://api.trongrid.io''\<rparr>\<rparr>)) = Inr False
   \<and> snd (checkTronNetwork \<lparr>BSC_CHAIN_ID = NumId 56, ACTIVE_TRON_CHAIN_ID = StrId ''TRON_MAINNET''\<rparr>
       (Some \<lparr>defaultAddress = None, contract = None,
               fullNode = Some \<lparr>host = Some ''https://API.trongrid.io''\<rparr>\<rparr>)) = Inr True"
proof -
  let ?c = "\<lparr>BSC_CHAIN_ID = NumId 56, ACTIVE_TRON_CHAIN_ID = StrId ''TRON_MAINNET''\<rparr>"
  let ?c' = "\<lparr>BSC_CHAIN_ID = NumId 56, ACTIVE_TRON_CHAIN_ID = StrId ''TRON_NILE''\<rparr>"
  let ?i = "Some \<lparr>defaultAddress = None, contract = None,
               fullNode = Some \<lparr>host = Some ''https://api.trongrid.io''\<rparr>\<rparr>"
  let ?j = "Some \<lparr>defaultAddress = None, contract = None,
               fullNode = Some \<lparr>host = Some ''https://API.trongrid.io''\<rparr>\<rparr>"
  have a: "fullNode_host None = None" by (simp add: fullNode_host_def)
  have j: "fullNode_host ?j = Some ''https://API.trongrid.io''" by (simp add: fullNode_host_def)
  have low: "toLowerCase ''https://API.trongrid.io'' = ''https://'' @ ''api.trongrid.io'' @ []"
    by code_simp
  from checkTronNetwork_fail_closed [of ?c None] a
  have 1: "snd (checkTronNetwork ?c None) = Inr False" by blast
  from checkTronNetwork_fail_closed [of ?c' ?i]
  have 2: "snd (checkTronNetwork ?c' ?i) = Inr False" by simp
  from checkTronNetwork_fail_closed [of ?c ?j] j low
  have 3: "snd (checkTronNetwork ?c ?j) = Inr True" by (simp del: append.simps) blast
  from 1 2 3 show ?thesis by simp
qed

subsection \<open>The binary64 value of a rational\<close>

lemma bit_length_upper: "n < 2 ^ bit_length n"
proof (induction n rule: bit_length.induct)
  case (1 n)
  show ?case
  proof (cases "n = 0")
    case True
    then show ?thesis by (simp add: bit_length.simps)
  next
    case False
    with 1 have "n div 2 < 2 ^ bit_length (n div 2)" by simp
    then have "n < 2 * 2 ^ bit_length (n div 2)" by linarith
    with False show ?thesis by (simp add: bit_length.simps [of n])
  qed
qed

lemma bit_length_pos: "0 < n \<Longrightarrow> 0 < bit_length n"
  by (simp add: bit_length.simps [of n])

lemma bit_length_lower: "0 < n \<Longrightarrow> 2 ^ (bit_length n - 1) \<le> n"
proof (induction n rule: bit_length.induct)
  case (1 n)
  then have n: "n \<noteq> 0" by simp
  show ?case
  proof (cases "n div 2 = 0")
    case True
    with n have "bit_length n = 1" by (simp add: bit_length.simps [of n] bit_length.simps [of 0])
    with 1 show ?thesis by simp
  next
    case False
    with 1 n have ih: "2 ^ (bit_length (n div 2) - 1) \<le> n div 2" by simp
    from False have "0 < bit_length (n div 2)" by (simp add: bit_length_pos)
    then have "(2::nat) ^ bit_length (n div 2) = 2 * 2 ^ (bit_length (n div 2) - 1)"
      by (cases "bit_length (n div 2)") simp_all
    with ih have "2 ^ bit_length (n div 2) \<le> n" by linarith
    with n show ?thesis by (simp add: bit_length.simps [of n])
  qed
qed

lemma powi_Suc: "(2::rat) powi (e + 1) = 2 * 2 powi e"
  by (simp add: power_int_add)

lemma exponent_unique:
  fixes x :: rat
  assumes "2 powi e \<le> x" "x < 2 powi (e + 1)" "2 powi e' \<le> x" "x < 2 powi (e' + 1)"
  shows "e = e'"
proof -
  have lt: "2 powi a < (2::rat) powi b \<Longrightarrow> a < b" for a b :: int
  proof (rule ccontr)
    assume h: "2 powi a < (2::rat) powi b" and "\<not> a < b"
    then have "b \<le> a" by simp
    then have "(2::rat) powi b \<le> 2 powi a" by (intro power_int_increasing) simp_all
    with h show False by linarith
  qed
  have "2 powi e < (2::rat) powi (e' + 1)" using assms by linarith
  then have a: "e < e' + 1" by (rule lt)
  have "2 powi e' < (2::rat) powi (e + 1)" using assms by linarith
  then have b: "e' < e + 1" by (rule lt)
  from a b show ?thesis by linarith
qed

lemma exponent_of_bracket:
  assumes "q \<noteq> 0"
  shows "2 powi (exponent_of q) \<le> \<bar>q\<bar> \<and> \<bar>q\<bar> < 2 powi (exponent_of q + 1)"
proof (cases "1 \<le> \<bar>q\<bar>")
  case True
  define n where "n = nat \<lfloor>\<bar>q\<bar>\<rfloor>"
  have fl: "1 \<le> \<lfloor>\<bar>q\<bar>\<rfloor>" using True by linarith
  then have npos: "0 < n" by (simp add: n_def)
  have nf: "(of_nat n :: rat) = of_int \<lfloor>\<bar>q\<bar>\<rfloor>"
    using fl by (simp add: n_def)
  have qn: "of_nat n \<le> \<bar>q\<bar>" "\<bar>q\<bar> < of_nat n + 1"
    unfolding nf by linarith+
  have e: "exponent_of q = int (bit_length n) - 1"
    using True by (simp add: exponent_of_def n_def)
  have blpos: "0 < bit_length n" using npos by (rule bit_length_pos)
  have lo: "(2::rat) powi (int (bit_length n) - 1) = 2 ^ (bit_length n - 1)"
    using blpos by (simp add: power_int_def nat_diff_distrib')
  have hi: "(2::rat) powi (int (bit_length n) - 1 + 1) = 2 ^ bit_length n"
    by simp
  have "(2::rat) ^ (bit_length n - 1) \<le> of_nat n"
    using bit_length_lower [OF npos] by (metis of_nat_le_iff of_nat_numeral of_nat_power)
  moreover have "(of_nat n :: rat) + 1 \<le> 2 ^ bit_length n"
  proof -
    have "n + 1 \<le> 2 ^ bit_length n" using bit_length_upper [of n] by simp
    then have "(of_nat (n + 1) :: rat) \<le> of_nat (2 ^ bit_length n)" by (simp only: of_nat_le_iff)
    then show ?thesis by simp
  qed
  ultimately show ?thesis using qn unfolding e lo hi by linarith
next
  case False
  define x where "x = 1 / \<bar>q\<bar>"
  have qpos: "0 < \<bar>q\<bar>" using assms by simp
  have x1: "1 < x" using False qpos by (simp add: x_def)
  define m where "m = nat (\<lceil>x\<rceil> - 1)"
  have c2: "2 \<le> \<lceil>x\<rceil>" using x1 by linarith
  then have mpos: "0 < m" by (simp add: m_def)
  have mc: "(of_nat m :: rat) = of_int \<lceil>x\<rceil> - 1"
    using c2 by (simp add: m_def)
  have mx: "of_nat m < x" "x \<le> of_nat m + 1"
    unfolding mc by linarith+
  define k where "k = bit_length m"
  have kpos: "0 < k" unfolding k_def using mpos by (rule bit_length_pos)
  have e: "exponent_of q = - int k"
    using False by (simp add: exponent_of_def k_def m_def x_def)
  have "(2::rat) ^ (k - 1) \<le> of_nat m"
    using bit_length_lower [OF mpos] unfolding k_def
    by (metis of_nat_le_iff of_nat_numeral of_nat_power)
  then have lo: "(2::rat) ^ (k - 1) < x" using mx by linarith
  have "(of_nat m :: rat) + 1 \<le> 2 ^ k"
  proof -
    have "m + 1 \<le> 2 ^ k" using bit_length_upper [of m] by (simp add: k_def)
    then have "(of_nat (m + 1) :: rat) \<le> of_nat (2 ^ k)" by (simp only: of_nat_le_iff)
    then show ?thesis by simp
  qed
  then have hi: "x \<le> 2 ^ k" using mx by linarith
  have p1: "(2::rat) powi (- int k) = 1 / 2 ^ k"
    by (simp add: power_int_minus_divide)
  have p2: "(2::rat) powi (- int k + 1) = 1 / 2 ^ (k - 1)"
  proof -
    have "- int k + 1 = - int (k - 1)" using kpos by simp
    then show ?thesis by (simp only: power_int_minus_divide power_int_of_nat)
  qed
  have xq: "\<bar>q\<bar> = 1 / x" using qpos by (simp add: x_def)
  have xpos: "0 < x" using x1 by simp
  have "1 / 2 ^ k \<le> 1 / x" using hi xpos by (simp add: frac_le)
  moreover have "1 / x < 1 / 2 ^ (k - 1)" using lo by (simp add: frac_less2)
  ultimately show ?thesis unfolding e p1 p2 xq by simp
qed

lemma exponent_of_eqI:
  assumes "2 powi e \<le> \<bar>q\<bar>" "\<bar>q\<bar> < 2 powi (e + 1)"
  shows "exponent_of q = e"
proof -
  have "\<not> (2::rat) powi e \<le> 0" by (simp add: not_le)
  with assms have "q \<noteq> 0" by auto
  from exponent_of_bracket [OF this] assms show ?thesis
    using exponent_unique by blast
qed

lemma binary64_normal:
  assumes "2 powi e \<le> \<bar>q\<bar>" "\<bar>q\<bar> < 2 powi (e + 1)" "- 1022 \<le> e"
  shows "binary64 q =
    (let r = of_int (round_half_even (q / 2 powi (e - 52))) * 2 powi (e - 52)
     in if 2 ^ 1024 \<le> \<bar>r\<bar> then (if 0 < q then PosInfinity else NegInfinity) else Finite r)"
proof -
  have "\<not> (2::rat) powi e \<le> 0" by (simp add: not_le)
  with assms have "q \<noteq> 0" by auto
  moreover have "max (exponent_of q) (- 1022) = e"
    using exponent_of_eqI [OF assms(1,2)] assms(3) by simp
  ultimately show ?thesis by (simp add: binary64_def Let_def)
qed

subsection \<open>Evaluating the number pipeline\<close>

lemma floor_rat_numeral_div [simp]:
  "\<lfloor>(numeral a / numeral b :: rat)\<rfloor> = numeral a div numeral b"
  by (metis floor_divide_of_int_eq of_int_numeral)

lemmas literal_defs =
  parseFloat_def is_space_def unsigned_literal_def is_digit_def Let_def exponent_part_def
  decimal_value_def digits_value_def digit_val_def scale10_def

lemmas bigint_defs =
  StringToBigInt_def trim_def is_space_def Let_def parse_radix_def radix_digit_def
  digits_value_def BigInt_div_def BigInt_rem_def BigInt_toString_def show_int_radix_def
  show_nat_radix.simps digit_char_def padStart_def strip_trailing_zeros_def

lemma ten_pow_6: "ten_pow 6 = Finite 1000000"
  unfolding ten_pow_def
  by (subst binary64_normal [of 19]) (simp_all add: round_half_even_def Let_def)

text \<open>The amount \<open>1.5\<close>.\<close>

lemma parseFloat_1_5: "parseFloat ''1.5'' = Finite (3 / 2)"
proof -
  have "parseFloat ''1.5'' = binary64 (15 / 10)" by (simp add: literal_defs)
  also have "\<dots> = Finite (3 / 2)"
    by (subst binary64_normal [of 0]) (simp_all add: round_half_even_def Let_def)
  finally show ?thesis .
qed

lemma rawAmount_1_5: "rawAmount_of tokenDecimals ''1.5'' = Inr ''1500000''"
proof -
  have "js_times (Finite (3 / 2)) (Finite 1000000) = Finite 1500000"
    unfolding js_times.simps
    by (subst binary64_normal [of 20]) (simp_all add: round_half_even_def Let_def)
  then show ?thesis
    by (simp add: rawAmount_of_def tokenDecimals_def parseFloat_1_5 ten_pow_6 bigint_defs
        del: js_times.simps)
qed

text \<open>An amount that is not a number.\<close>

lemma rawAmount_abc: "rawAmount_of tokenDecimals ''abc'' = Inl (not_an_integer ''NaN'')"
  by (simp add: rawAmount_of_def literal_defs)

text \<open>The spec's example.\<close>

lemma rawAmount_spec_example:
  "rawAmount_of tokenDecimals ''123456789.123456'' = Inr ''123456789123456''"
proof -
  have "parseFloat ''123456789.123456'' = binary64 (123456789123456 / 1000000)"
    by (simp add: literal_defs)
  also have "\<dots> = Finite (129453826111917 / 1048576)"
    by (subst binary64_normal [of 26]) (simp_all add: round_half_even_def Let_def)
  finally have p: "parseFloat ''123456789.123456'' = Finite (129453826111917 / 1048576)" .
  have "js_times (Finite (129453826111917 / 1048576)) (Finite 1000000) = Finite 123456789123456"
    unfolding js_times.simps
    by (subst binary64_normal [of 46]) (simp_all add: round_half_even_def Let_def)
  then show ?thesis
    by (simp add: rawAmount_of_def tokenDecimals_def p ten_pow_6 bigint_defs
        del: js_times.simps)
qed

lemma format_spec_example:
  "format_balance tokenDecimals ''123456789123456'' = Inr ''123456789.123456''"
  by (simp add: format_balance_def tokenDecimals_def ten_pow_6 bigint_defs)

subsection \<open>Amount conversion on the Tron path\<close>

text \<open>
  Claim C1 says that converting an amount with at most six fractional digits to base
  units, as the Tron mint and burn paths do, and converting the result back, as the Tron
  balance path does, gives the original value. The conversion goes through binary64
  numbers (\<^verbatim>\<open>parseFloat\<close>, a multiplication, \<^verbatim>\<open>Math.round\<close>), and for the amount
  \<^verbatim>\<open>9007199254.740993\<close> the base units come out as \<open>9007199254740994\<close>: the round trip
  ends at \<^verbatim>\<open>9007199254.740994\<close>.
\<close>

theorem round_trip_drifts:
  "rawAmount_of tokenDecimals ''9007199254.740993'' = Inr ''9007199254740994''
   \<and> format_balance tokenDecimals ''9007199254740994'' = Inr ''9007199254.740994''"
proof -
  have "parseFloat ''9007199254.740993'' = binary64 (9007199254740993 / 1000000)"
    by (simp add: literal_defs)
  also have "\<dots> = Finite (2361183241434823 / 262144)"
    by (subst binary64_normal [of 33]) (simp_all add: round_half_even_def Let_def)
  finally have p: "parseFloat ''9007199254.740993'' = Finite (2361183241434823 / 262144)" .
  have m: "js_times (Finite (2361183241434823 / 262144)) (Finite 1000000)
             = Finite 9007199254740994"
    unfolding js_times.simps
    by (subst binary64_normal [of 53]) (simp_all add: round_half_even_def Let_def)
  have 1: "rawAmount_of tokenDecimals ''9007199254.740993'' = Inr ''9007199254740994''"
    by (simp add: rawAmount_of_def tokenDecimals_def p m ten_pow_6 bigint_defs
        del: js_times.simps)
  have 2: "format_balance tokenDecimals ''9007199254740994'' = Inr ''9007199254.740994''"
    by (simp add: format_balance_def tokenDecimals_def ten_pow_6 bigint_defs)
  from 1 2 show ?thesis ..
qed

text \<open>
  Claim C2 says that the base units are the exact product of the amount and \<open>10\<^sup>6\<close>,
  computed without floating point. For the amount \<^verbatim>\<open>100000000000.000001\<close> the exact
  product is \<open>100000000000000001\<close>; \<^verbatim>\<open>parseFloat\<close> already rounds the amount to the
  number \<open>100000000000\<close>, and the code computes \<open>100000000000000000\<close>. The amount
  \<^verbatim>\<open>4421872436.275993\<close> is lost later: the binary64 product is \<open>4421872436275993.5\<close>,
  which \<^verbatim>\<open>Math.round\<close> rounds up to \<open>4421872436275994\<close>.
\<close>

theorem rawAmount_inexact:
  "rawAmount_of tokenDecimals ''100000000000.000001'' = Inr ''100000000000000000''
   \<and> rawAmount_of tokenDecimals ''4421872436.275993'' = Inr ''4421872436275994''"
proof -
  have "parseFloat ''100000000000.000001'' = binary64 (100000000000000001 / 1000000)"
    by (simp add: literal_defs)
  also have "\<dots> = Finite 100000000000"
    by (subst binary64_normal [of 36]) (simp_all add: round_half_even_def Let_def)
  finally have p: "parseFloat ''100000000000.000001'' = Finite 100000000000" .
  have m: "js_times (Finite 100000000000) (Finite 1000000) = Finite 100000000000000000"
    unfolding js_times.simps
    by (subst binary64_normal [of 56]) (simp_all add: round_half_even_def Let_def)
  have 1: "rawAmount_of tokenDecimals ''100000000000.000001'' = Inr ''100000000000000000''"
    by (simp add: rawAmount_of_def tokenDecimals_def p m ten_pow_6 bigint_defs
        del: js_times.simps)
  have "parseFloat ''4421872436.275993'' = binary64 (4421872436275993 / 1000000)"
    by (simp add: literal_defs)
  also have "\<dots> = Finite (579583663967567 / 131072)"
    by (subst binary64_normal [of 32]) (simp_all add: round_half_even_def Let_def)
  finally have p': "parseFloat ''4421872436.275993'' = Finite (579583663967567 / 131072)" .
  have m': "js_times (Finite (579583663967567 / 131072)) (Finite 1000000)
             = Finite (8843744872551987 / 2)"
    unfolding js_times.simps
    by (subst binary64_normal [of 51]) (simp_all add: round_half_even_def Let_def)
  have 2: "rawAmount_of tokenDecimals ''4421872436.275993'' = Inr ''4421872436275994''"
    by (simp add: rawAmount_of_def tokenDecimals_def p' m' ten_pow_6 bigint_defs
        del: js_times.simps)
  from 1 2 show ?thesis ..
qed

subsection \<open>Mint and burn: absent handles and missing methods\<close>

text \<open>
  Claim C5. A mint without its chain handle (no signer on the EVM path; on the Tron path
  no instance, no default address, or no base58 address) throws a descriptive error and
  does nothing else: the trace is empty, so no contract was constructed and no contract
  method was called.
\<close>

theorem mint_without_handle_fails_fast:
  "mintBep20Tokens sdk cfg None recipient amount =
     ([], Inl (new_Error ''A connected Signer (wallet) is required for minting BEP-20 tokens.''))
   \<and> (\<not> has_base58 inst \<longrightarrow>
        mintTrc20Tokens cfg inst recipient amount =
          ([], Inl (new_Error
             ''TronLink wallet instance with address is required for minting TRC-20 tokens.'')))"
  by (simp add: mintBep20Tokens_def mintTrc20Tokens_def io_defs)

theorem mint_without_handle_fails_fast_witness:
  "mintBep20Tokens example_sdk example_config None ''0xRecipient'' ''1.5'' =
     ([], Inl (new_Error ''A connected Signer (wallet) is required for minting BEP-20 tokens.''))
   \<and> mintTrc20Tokens example_config None ''0xRecipient'' ''1.5'' =
     ([], Inl (new_Error
        ''TronLink wallet instance with address is required for minting TRC-20 tokens.''))
   \<and> mintTrc20Tokens example_config
        (Some \<lparr>defaultAddress = Some \<lparr>base58 = None, hex = None\<rparr>, contract = None,
               fullNode = None\<rparr>) ''0xRecipient'' ''1.5'' =
     ([], Inl (new_Error
        ''TronLink wallet instance with address is required for minting TRC-20 tokens.''))"
  using
    mint_without_handle_fails_fast [of example_sdk example_config "''0xRecipient''" "''1.5''"
      None]
    mint_without_handle_fails_fast [of example_sdk example_config "''0xRecipient''" "''1.5''"
      "Some \<lparr>defaultAddress = Some \<lparr>base58 = None, hex = None\<rparr>, contract = None,
               fullNode = None\<rparr>"]
  by (simp add: has_base58_def)

text \<open>The contract accessor on an instance whose contract has its methods.\<close>

lemma getTrc20Contract_ok:
  "tronWebInstance = Some i \<Longrightarrow> contract i = Some lookup \<Longrightarrow>
   lookup (TRC20_ADDRESS_HEX cfg) = Inr (Some c) \<Longrightarrow> methods c = Some ms \<Longrightarrow>
   getTrc20Contract cfg tronWebInstance = ([NewContract TRON], Inr ms)"
  by (simp add: getTrc20Contract_def io_defs)

text \<open>
  Claim C6, as stated: every burn against a contract without the expected method throws
  the error that names the missing function. The amount is converted before the method
  is looked at, so for an amount that does not convert the error is the conversion's:
  here \<^verbatim>\<open>burn\<close> is missing and the amount is \<^verbatim>\<open>abc\<close>.
\<close>

theorem burn_amount_error_first_counterexample:
  "burnTrc20Tokens example_config (Some example_tronWeb) ''TTarget'' ''abc'' =
     ([NewContract TRON, ConsoleError ''TRC20 Burning Error:''],
      Inl (new_Error
        ''The number NaN cannot be converted to a BigInt because it is not an integer''))"
  by (simp add: burnTrc20Tokens_def has_base58_def example_tronWeb_def getTrc20Contract_def
      io_defs rawAmount_abc tron_error_message_def or_default_def not_an_integer_def
      RangeError_def new_Error_def)

text \<open>
  Claim C6, amended. A burn that reaches the method check (the handle is present, the
  contract was obtained and the amount converted to base units) against a contract
  without the expected method (\<^verbatim>\<open>burnFrom\<close> on the EVM path, \<^verbatim>\<open>burn\<close> on the Tron
  path) throws an error whose message names the missing function, and its trace holds
  no contract call: no transaction is submitted.
\<close>

theorem burn_missing_method:
  "(signer = Some s \<and> new_Contract sdk (BEP20_ADDRESS cfg) s = Inr c \<and> bep_burnFrom c = None
      \<and> parseEther sdk amount = Inr amountWei \<longrightarrow>
      burnBep20Tokens sdk cfg signer targetAddress amount =
        ([NewContract BSC, ConsoleLog ''Burning BEP20'', ConsoleError ''BEP20 Burning Error:''],
         Inl (new_Error
           ''The 'burnFrom(address,uint256)' function is not available on this BEP20 contract instance. Check ABI/Contract.'')))
   \<and> (has_base58 inst \<and> getTrc20Contract cfg inst = (t, Inr ms) \<and> trc_burn ms = None
      \<and> rawAmount_of tokenDecimals amount = Inr rawAmount \<longrightarrow>
      burnTrc20Tokens cfg inst targetAddress amount =
        (t @ [ConsoleLog ''Burning TRC20'', ConsoleError ''TRC20 Burning Error:''],
         Inl (new_Error
           ''Contract ABI doesn't seem to have a 'burn(address,uint256)' function. Check ABI/Contract.'')))"
  by (simp add: burnBep20Tokens_def burnTrc20Tokens_def getBep20Contract_def io_defs
      evm_error_message_def tron_error_message_def or_default_def or_else_def new_Error_def)

theorem burn_missing_method_witness:
  "burnBep20Tokens example_sdk example_config (Some (Handle 1)) ''0xTarget'' ''1.5'' =
     ([NewContract BSC, ConsoleLog ''Burning BEP20'', ConsoleError ''BEP20 Burning Error:''],
      Inl (new_Error
        ''The 'burnFrom(address,uint256)' function is not available on this BEP20 contract instance. Check ABI/Contract.''))
   \<and> burnTrc20Tokens example_config (Some example_tronWeb) ''TTarget'' ''1.5'' =
     ([NewContract TRON, ConsoleLog ''Burning TRC20'', ConsoleError ''TRC20 Burning Error:''],
      Inl (new_Error
        ''Contract ABI doesn't seem to have a 'burn(address,uint256)' function. Check ABI/Contract.''))"
proof -
  have g: "getTrc20Contract example_config (Some example_tronWeb)
             = ([NewContract TRON], Inr bare_trc20)"
    by (simp add: getTrc20Contract_def example_tronWeb_def io_defs)
  have b: "has_base58 (Some example_tronWeb)"
    by (simp add: has_base58_def example_tronWeb_def)
  have n: "trc_burn bare_trc20 = None" "bep_burnFrom bare_bep20 = None"
    by (simp_all add: bare_trc20_def bare_bep20_def)
  have s: "new_Contract example_sdk (BEP20_ADDRESS example_config) (Handle 1) = Inr bare_bep20"
    "parseEther example_sdk ''1.5'' = Inr 1500000000000000000"
    by (simp_all add: example_sdk_def)
  from burn_missing_method [where signer = "Some (Handle 1)" and s = "Handle 1"
      and sdk = example_sdk and cfg = example_config and c = bare_bep20 and amount = "''1.5''"
      and amountWei = 1500000000000000000 and targetAddress = "''0xTarget''"] n s
  have 1: "burnBep20Tokens example_sdk example_config (Some (Handle 1)) ''0xTarget'' ''1.5'' =
     ([NewContract BSC, ConsoleLog ''Burning BEP20'', ConsoleError ''BEP20 Burning Error:''],
      Inl (new_Error
        ''The 'burnFrom(address,uint256)' function is not available on this BEP20 contract instance. Check ABI/Contract.''))"
    by simp
  from burn_missing_method [where cfg = example_config and inst = "Some example_tronWeb"
      and t = "[NewContract TRON]" and ms = bare_trc20 and amount = "''1.5''"
      and rawAmount = "''1500000''" and targetAddress = "''TTarget''"] g b n rawAmount_1_5
  have 2: "burnTrc20Tokens example_config (Some example_tronWeb) ''TTarget'' ''1.5'' =
     ([NewContract TRON, ConsoleLog ''Burning TRC20'', ConsoleError ''TRC20 Burning Error:''],
      Inl (new_Error
        ''Contract ABI doesn't seem to have a 'burn(address,uint256)' function. Check ABI/Contract.''))"
    by simp
  from 1 2
  show ?thesis by simp
qed

subsection \<open>Balance queries\<close>

text \<open>
  Claim C7 says that a balance query whose contract construction fails returns the text
  \<^verbatim>\<open>Error\<close>. \<^verbatim>\<open>getBep20Balance\<close> constructs the contract before its \<^verbatim>\<open>try\<close> block:
  when the constructor throws, the query throws.
\<close>

theorem getBep20Balance_construction_throws:
  "getBep20Balance failing_sdk example_config
     (Some \<lparr>inner_provider = Some (Handle 1)\<rparr>) ''0xHolder'' =
     ([NewContract BSC], Inl (new_Error ''contract runner does not support name resolution''))"
  by (simp add: getBep20Balance_def failing_sdk_def io_defs)

text \<open>
  The Tron balance query never throws: whatever the instance, the contract lookup, the
  contract and the raw balance are, it returns a string.
\<close>

theorem getTrc20Balance_never_throws:
  "\<exists>t s. getTrc20Balance cfg inst address = (t, Inr s)"
proof (cases inst)
  case None
  then show ?thesis by (simp add: getTrc20Balance_def io_defs)
next
  case (Some i)
  obtain t r where g: "getTrc20Contract cfg (Some i) = (t, r)" by (cases "getTrc20Contract cfg (Some i)")
  show ?thesis
  proof (cases r)
    case (Inl e)
    with Some g show ?thesis by (simp add: getTrc20Balance_def io_defs)
  next
    case (Inr ms)
    show ?thesis
    proof (cases "trc_balanceOf ms")
      case None
      with Some g Inr show ?thesis by (simp add: getTrc20Balance_def io_defs)
    next
      case (Some f)
      show ?thesis
      proof (cases "f address")
        case (Inl e)
        with Some \<open>inst = Some i\<close> g Inr show ?thesis by (simp add: getTrc20Balance_def io_defs)
      next
        case raw: (Inr rawBalance)
        show ?thesis
        proof (cases "format_balance tokenDecimals rawBalance")
          case (Inl e)
          with raw Some \<open>inst = Some i\<close> g Inr show ?thesis
            by (simp add: getTrc20Balance_def io_defs)
        next
          case shown: (Inr s)
          with raw Some \<open>inst = Some i\<close> g Inr show ?thesis
            by (simp add: getTrc20Balance_def io_defs)
        qed
      qed
    qed
  qed
qed

text \<open>
  And the string is the sentinel \<^verbatim>\<open>Error\<close> unless the contract was obtained, it has a
  \<^verbatim>\<open>balanceOf\<close> method, the call answered and the answer is the text of an integer;
  then it is the display form of that balance.
\<close>

theorem getTrc20Balance_sentinel:
  "snd (getTrc20Balance cfg inst address) = Inr ''Error''
   \<or> (\<exists>t ms f rawBalance shown.
         getTrc20Contract cfg inst = (t, Inr ms) \<and> trc_balanceOf ms = Some f
         \<and> f address = Inr rawBalance \<and> format_balance tokenDecimals rawBalance = Inr shown
         \<and> snd (getTrc20Balance cfg inst address) = Inr shown)"
proof (cases inst)
  case None
  then show ?thesis by (simp add: getTrc20Balance_def io_defs)
next
  case (Some i)
  obtain t r where g: "getTrc20Contract cfg (Some i) = (t, r)"
    by (cases "getTrc20Contract cfg (Some i)")
  show ?thesis
  proof (cases r)
    case (Inl e)
    with Some g show ?thesis by (simp add: getTrc20Balance_def io_defs)
  next
    case (Inr ms)
    show ?thesis
    proof (cases "trc_balanceOf ms")
      case None
      with Some g Inr show ?thesis by (simp add: getTrc20Balance_def io_defs)
    next
      case (Some f)
      show ?thesis
      proof (cases "f address")
        case (Inl e)
        with Some \<open>inst = Some i\<close> g Inr show ?thesis
          by (simp add: getTrc20Balance_def io_defs)
      next
        case raw: (Inr rawBalance)
        show ?thesis
        proof (cases "format_balance tokenDecimals rawBalance")
          case (Inl e)
          with raw Some \<open>inst = Some i\<close> g Inr show ?thesis
            by (simp add: getTrc20Balance_def io_defs)
        next
          case shown: (Inr s)
          with raw Some \<open>inst = Some i\<close> g Inr show ?thesis
            by (simp add: getTrc20Balance_def io_defs)
        qed
      qed
    qed
  qed
qed

text \<open>
  The EVM balance query returns the sentinel when the provider or its read provider is
  absent, and, once the contract is constructed, when the balance call or the
  formatting throws; it throws only when the constructor does.
\<close>

theorem getBep20Balance_sentinel:
  "(prov = None \<or> (\<exists>p. prov = Some p \<and> inner_provider p = None) \<longrightarrow>
      snd (getBep20Balance sdk cfg prov address) = Inr ''Error'')
   \<and> (prov = Some p \<and> inner_provider p = Some readProvider
        \<and> new_Contract sdk (BEP20_ADDRESS cfg) readProvider = Inr c \<longrightarrow>
      snd (getBep20Balance sdk cfg prov address) = Inr ''Error''
      \<or> (\<exists>f balanceWei shown. bep_balanceOf c = Some f \<and> f address = Inr balanceWei
            \<and> formatEther sdk balanceWei = Inr shown
            \<and> snd (getBep20Balance sdk cfg prov address) = Inr shown))"
proof -
  have 1: "prov = None \<or> (\<exists>p. prov = Some p \<and> inner_provider p = None) \<longrightarrow>
      snd (getBep20Balance sdk cfg prov address) = Inr ''Error''"
    by (auto simp: getBep20Balance_def io_defs)
  have 2: "snd (getBep20Balance sdk cfg prov address) = Inr ''Error''
      \<or> (\<exists>f balanceWei shown. bep_balanceOf c = Some f \<and> f address = Inr balanceWei
            \<and> formatEther sdk balanceWei = Inr shown
            \<and> snd (getBep20Balance sdk cfg prov address) = Inr shown)"
    if h: "prov = Some p" "inner_provider p = Some readProvider"
      "new_Contract sdk (BEP20_ADDRESS cfg) readProvider = Inr c"
  proof (cases "bep_balanceOf c")
    case None
    with h show ?thesis by (simp add: getBep20Balance_def io_defs)
  next
    case (Some f)
    show ?thesis
    proof (cases "f address")
      case (Inl e)
      with Some h show ?thesis by (simp add: getBep20Balance_def io_defs)
    next
      case bal: (Inr balanceWei)
      show ?thesis
      proof (cases "formatEther sdk balanceWei")
        case (Inl e)
        with bal Some h show ?thesis by (simp add: getBep20Balance_def io_defs)
      next
        case (Inr shown)
        with bal Some h show ?thesis by (simp add: getBep20Balance_def io_defs)
      qed
    qed
  qed
  from 1 2 show ?thesis by blast
qed

theorem getBep20Balance_sentinel_witness:
  "snd (getBep20Balance example_sdk example_config None ''0xHolder'') = Inr ''Error''
   \<and> snd (getBep20Balance example_sdk example_config
        (Some \<lparr>inner_provider = Some (Handle 1)\<rparr>) ''0xHolder'') = Inr ''0.0''"
proof -
  have 1: "snd (getBep20Balance example_sdk example_config None ''0xHolder'') = Inr ''Error''"
    using getBep20Balance_sentinel [of None example_sdk example_config "''0xHolder''"] by simp
  have "snd (getBep20Balance example_sdk example_config
        (Some \<lparr>inner_provider = Some (Handle 1)\<rparr>) ''0xHolder'') = Inr ''Error''
      \<or> (\<exists>f balanceWei shown. bep_balanceOf bare_bep20 = Some f
            \<and> f ''0xHolder'' = Inr balanceWei
            \<and> formatEther example_sdk balanceWei = Inr shown
            \<and> snd (getBep20Balance example_sdk example_config
                 (Some \<lparr>inner_provider = Some (Handle 1)\<rparr>) ''0xHolder'') = Inr shown)"
    using getBep20Balance_sentinel [of "Some \<lparr>inner_provider = Some (Handle 1)\<rparr>"
        example_sdk example_config "''0xHolder''" "\<lparr>inner_provider = Some (Handle 1)\<rparr>"
        "Handle 1" bare_bep20]
    by (simp add: example_sdk_def)
  then have 2: "snd (getBep20Balance example_sdk example_config
        (Some \<lparr>inner_provider = Some (Handle 1)\<rparr>) ''0xHolder'') = Inr ''0.0''"
    by (simp add: getBep20Balance_def io_defs example_sdk_def bare_bep20_def)
  from 1 2 show ?thesis ..
qed

subsection \<open>Network switch\<close>

text \<open>
  Claim C8. When the wallet refuses the switch request: with the code \<open>4902\<close> and a
  target chain id other than \<^verbatim>\<open>BSC_CHAIN_ID\<close> (the only id with add-chain parameters),
  the operation throws an error that says the configuration for that chain id is
  missing; with any other failure it throws an error that carries the wallet's message.
  In both cases the switch request is the only request the wallet received.
\<close>

theorem switch_failure:
  assumes "prov = Some p" "send p = Some request" "BigInt_of_chain_id cid = Inr b"
    "request ''wallet_switchEthereumChain'' [''0x'' @ show_int_radix 16 b] = Inl e"
  shows "(err_code e = Some 4902 \<and> cid \<noteq> BSC_CHAIN_ID c \<longrightarrow>
            snd (requestNetworkSwitch c cfg prov cid) =
              Inl (new_Error (''Failed to add network: '' @ ''Configuration to add chainId ''
                     @ chain_id_text cid @ '' is missing.''))
            \<and> wallet_requests (fst (requestNetworkSwitch c cfg prov cid)) =
                [WalletRequest ''wallet_switchEthereumChain'' [''0x'' @ show_int_radix 16 b]])
       \<and> (err_code e \<noteq> Some 4902 \<longrightarrow>
            snd (requestNetworkSwitch c cfg prov cid) =
              Inl (new_Error (''Failed to switch network: ''
                     @ or_default (err_message e) ''User rejected or unknown error''))
            \<and> wallet_requests (fst (requestNetworkSwitch c cfg prov cid)) =
                [WalletRequest ''wallet_switchEthereumChain'' [''0x'' @ show_int_radix 16 b]])"
  using assms
  by (simp add: requestNetworkSwitch_def io_defs Let_def new_Error_def or_default_def)

theorem switch_failure_witness:
  "snd (requestNetworkSwitch example_constants example_config (Some (refusing_wallet 4902))
          (NumId 97)) =
     Inl (new_Error ''Failed to add network: Configuration to add chainId 97 is missing.'')
   \<and> wallet_requests (fst (requestNetworkSwitch example_constants example_config
          (Some (refusing_wallet 4902)) (NumId 97))) =
       [WalletRequest ''wallet_switchEthereumChain'' [''0x61'']]
   \<and> snd (requestNetworkSwitch example_constants example_config (Some (refusing_wallet 4001))
          (NumId 56)) =
     Inl (new_Error ''Failed to switch network: request refused'')
   \<and> wallet_requests (fst (requestNetworkSwitch example_constants example_config
          (Some (refusing_wallet 4001)) (NumId 56))) =
       [WalletRequest ''wallet_switchEthereumChain'' [''0x38'']]"
proof -
  have h: "show_int_radix 16 97 = ''61''" "show_int_radix 16 56 = ''38''"
    "BigInt_toString 97 = ''97''"
    by (simp_all add: bigint_defs)
  from switch_failure [of "Some (refusing_wallet 4902)" "refusing_wallet 4902"
      "\<lambda>m ps. Inl (ThrownObject \<lparr>shortMessage = None, message = Some ''request refused'',
         code = Some 4902, json = ''{}''\<rparr>)" "NumId 97" 97
      "ThrownObject \<lparr>shortMessage = None, message = Some ''request refused'',
         code = Some 4902, json = ''{}''\<rparr>" example_constants example_config]
  have 1: "snd (requestNetworkSwitch example_constants example_config
              (Some (refusing_wallet 4902)) (NumId 97)) =
     Inl (new_Error ''Failed to add network: Configuration to add chainId 97 is missing.'')
   \<and> wallet_requests (fst (requestNetworkSwitch example_constants example_config
          (Some (refusing_wallet 4902)) (NumId 97))) =
       [WalletRequest ''wallet_switchEthereumChain'' [''0x61'']]"
    by (simp add: refusing_wallet_def example_constants_def h)
  from switch_failure [of "Some (refusing_wallet 4001)" "refusing_wallet 4001"
      "\<lambda>m ps. Inl (ThrownObject \<lparr>shortMessage = None, message = Some ''request refused'',
         code = Some 4001, json = ''{}''\<rparr>)" "NumId 56" 56
      "ThrownObject \<lparr>shortMessage = None, message = Some ''request refused'',
         code = Some 4001, json = ''{}''\<rparr>" example_constants example_config]
  have 2: "snd (requestNetworkSwitch example_constants example_config
              (Some (refusing_wallet 4001)) (NumId 56)) =
     Inl (new_Error ''Failed to switch network: request refused'')
   \<and> wallet_requests (fst (requestNetworkSwitch example_constants example_config
          (Some (refusing_wallet 4001)) (NumId 56))) =
       [WalletRequest ''wallet_switchEthereumChain'' [''0x38'']]"
    by (simp add: refusing_wallet_def h or_default_def)
  from 1 2 show ?thesis by simp
qed

subsection \<open>Module initialisation\<close>

text \<open>
  Claim C9 says that the module does not load when a required variable is absent, the
  EVM RPC URL among them. The code has the guard for it (the throw that names
  \<^verbatim>\<open>NEXT_PUBLIC_BSC_RPC_URL\<close>), as it has for the three other variables, but the constant
  it tests was first given a fallback text with \<^verbatim>\<open>||\<close>: without the EVM RPC URL the
  module loads, with the fallback \<^verbatim>\<open>bsc-testnet-rpc.publicnode.com\<close> as the URL.
\<close>

theorem module_init_loads_without_rpc_url:
  "module_init (\<lambda>a. Inr ''41a614f803b6fd780986a42c78ec9c7f77e6ded13c'') example_env =
     ([], Inr (example_config
            \<lparr>NEXT_PUBLIC_BSC_RPC_URL := ''bsc-testnet-rpc.publicnode.com''\<rparr>))"
  by (simp add: module_init_def example_env_def example_config_def io_defs or_default_def)

text \<open>The guard for the EVM RPC URL is dead: no environment and no answer of the address
  conversion make the module throw its error.\<close>

lemma module_init_rpc_guard_dead:
  "snd (module_init toHex env)
     \<noteq> Inl (new_Error ''Missing environment variable: NEXT_PUBLIC_BSC_RPC_URL'')"
proof -
  have d: "or_default (env_BSC_RPC_URL env) ''bsc-testnet-rpc.publicnode.com'' \<noteq> []"
    by (simp add: or_default_def split: option.splits)
  show ?thesis
  proof (cases "toHex (the (env_TRC20_CONTRACT_ADDRESS env))")
    case (Inl e)
    with d show ?thesis
      by (simp add: module_init_def io_defs Let_def new_Error_def)
  next
    case (Inr h)
    with d show ?thesis
      by (simp add: module_init_def io_defs Let_def new_Error_def)
  qed
qed

text \<open>
  The three other variables and the address conversion do abort the load. Loading the
  module throws an error that names the variable when the EVM token address, the Tron
  RPC URL or the Tron token address is absent or empty (the first absent one, in that
  order), and an error that names the address when the Tron SDK cannot convert the Tron
  token address to hex.
\<close>

theorem module_init_siblings_abort:
  "(\<not> truthy (env_BEP20_CONTRACT_ADDRESS env) \<longrightarrow>
      module_init toHex env =
        ([], Inl (new_Error ''Missing environment variable: NEXT_PUBLIC_BEP20_CONTRACT_ADDRESS'')))
   \<and> (truthy (env_BEP20_CONTRACT_ADDRESS env) \<and> \<not> truthy (env_TRON_RPC_URL env) \<longrightarrow>
      module_init toHex env =
        ([], Inl (new_Error ''Missing environment variable: NEXT_PUBLIC_TRON_RPC_URL'')))
   \<and> (truthy (env_BEP20_CONTRACT_ADDRESS env) \<and> truthy (env_TRON_RPC_URL env)
        \<and> \<not> truthy (env_TRC20_CONTRACT_ADDRESS env) \<longrightarrow>
      module_init toHex env =
        ([], Inl (new_Error ''Missing environment variable: NEXT_PUBLIC_TRC20_CONTRACT_ADDRESS'')))
   \<and> (truthy (env_BEP20_CONTRACT_ADDRESS env) \<and> truthy (env_TRON_RPC_URL env)
        \<and> env_TRC20_CONTRACT_ADDRESS env = Some addr \<and> addr \<noteq> [] \<and> toHex addr = Inl e \<longrightarrow>
      module_init toHex env =
        ([ConsoleError ''Failed to convert TRC20 address to hex:''],
         Inl (new_Error (''Invalid NEXT_PUBLIC_TRC20_CONTRACT_ADDRESS format: '' @ addr))))"
  by (auto simp: module_init_def io_defs Let_def or_default_def split: option.splits)

theorem module_init_siblings_abort_witness:
  "module_init (\<lambda>a. Inr ''41..'') (example_env \<lparr>env_BEP20_CONTRACT_ADDRESS := None\<rparr>) =
     ([], Inl (new_Error ''Missing environment variable: NEXT_PUBLIC_BEP20_CONTRACT_ADDRESS''))
   \<and> module_init (\<lambda>a. Inr ''41..'') (example_env \<lparr>env_TRON_RPC_URL := Some ''''\<rparr>) =
     ([], Inl (new_Error ''Missing environment variable: NEXT_PUBLIC_TRON_RPC_URL''))
   \<and> module_init (\<lambda>a. Inr ''41..'') (example_env \<lparr>env_TRC20_CONTRACT_ADDRESS := None\<rparr>) =
     ([], Inl (new_Error ''Missing environment variable: NEXT_PUBLIC_TRC20_CONTRACT_ADDRESS''))
   \<and> module_init (\<lambda>a. Inl (ThrownString ''Invalid address provided''))
        (example_env \<lparr>env_TRC20_CONTRACT_ADDRESS := Some ''not-base58''\<rparr>) =
     ([ConsoleError ''Failed to convert TRC20 address to hex:''],
      Inl (new_Error ''Invalid NEXT_PUBLIC_TRC20_CONTRACT_ADDRESS format: not-base58''))"
  using
    module_init_siblings_abort [of "example_env \<lparr>env_BEP20_CONTRACT_ADDRESS := None\<rparr>"
      "\<lambda>a. Inr ''41..''"]
    module_init_siblings_abort [of "example_env \<lparr>env_TRON_RPC_URL := Some ''''\<rparr>"
      "\<lambda>a. Inr ''41..''"]
    module_init_siblings_abort [of "example_env \<lparr>env_TRC20_CONTRACT_ADDRESS := None\<rparr>"
      "\<lambda>a. Inr ''41..''"]
    module_init_siblings_abort
      [of "example_env \<lparr>env_TRC20_CONTRACT_ADDRESS := Some ''not-base58''\<rparr>"
      "\<lambda>a. Inl (ThrownString ''Invalid address provided'')" "''not-base58''"
      "ThrownString ''Invalid address provided''"]
  by (simp add: example_env_def)

subsection \<open>Where the Tron amount conversion is exact\<close>

text \<open>
  Rounding to binary64 moves a value in the normal range by at most the fraction
  \<open>2\<^sup>-\<^sup>5\<^sup>3\<close> of it. Two roundings (the literal, the product) and a base-unit value
  below \<open>2\<^sup>5\<^sup>1\<close> keep the computed product within \<open>1/2\<close> of the exact one, so
  \<^verbatim>\<open>Math.round\<close> lands on it.
\<close>

lemma round_half_even_error: "\<bar>of_int (round_half_even y) - y\<bar> \<le> 1 / 2"
proof -
  have "of_int \<lfloor>y\<rfloor> \<le> y" "y < of_int \<lfloor>y\<rfloor> + 1" by linarith+
  then show ?thesis
    by (auto simp: round_half_even_def Let_def abs_le_iff)
qed

lemma powi_less_imp_less:
  assumes "2 powi a < (2::rat) powi b"
  shows "a < b"
proof (rule ccontr)
  assume "\<not> a < b"
  then have "b \<le> a" by simp
  then have "(2::rat) powi b \<le> 2 powi a" by (intro power_int_increasing) simp_all
  with assms show False by linarith
qed

lemma binary64_rel_error:
  assumes "2 powi (- 1022) \<le> v" "v < 2 ^ 1023"
  shows "\<exists>x. binary64 v = Finite x \<and> \<bar>x - v\<bar> \<le> v / 2 ^ 53"
proof -
  have vpos: "0 < v"
  proof -
    have "0 < (2::rat) powi (- 1022)" by (simp del: power_int_numeral_neg_numeral)
    with assms(1) show ?thesis by linarith
  qed
  then have v0: "v \<noteq> 0" by simp
  define e where "e = exponent_of v"
  have br: "2 powi e \<le> v" "v < 2 powi (e + 1)"
    using exponent_of_bracket [OF v0] vpos by (simp_all add: e_def)
  have "2 powi (- 1022) < (2::rat) powi (e + 1)" using assms(1) br(2) by linarith
  then have elow: "- 1022 \<le> e" using powi_less_imp_less by fastforce
  define u where "u = (2::rat) powi (e - 52)"
  have upos: "0 < u" by (simp add: u_def)
  define m where "m = round_half_even (v / u)"
  define r where "r = of_int m * u"
  have b64: "binary64 v = (if 2 ^ 1024 \<le> \<bar>r\<bar> then (if 0 < v then PosInfinity else NegInfinity)
      else Finite r)"
    using binary64_normal [of e v] br elow vpos by (simp add: Let_def r_def m_def u_def)
  have "\<bar>of_int m - v / u\<bar> \<le> 1 / 2" unfolding m_def by (rule round_half_even_error)
  then have "\<bar>of_int m - v / u\<bar> * u \<le> 1 / 2 * u" using upos by (simp add: mult_right_mono)
  moreover have "\<bar>of_int m - v / u\<bar> * u = \<bar>r - v\<bar>"
  proof -
    have "\<bar>of_int m - v / u\<bar> * u = \<bar>(of_int m - v / u) * u\<bar>" using upos by (simp add: abs_mult)
    also have "(of_int m - v / u) * u = r - v" using upos by (simp add: r_def field_simps)
    finally show ?thesis .
  qed
  ultimately have err: "\<bar>r - v\<bar> \<le> u / 2" by simp
  have u2: "u / 2 = 2 powi e / 2 ^ 53"
  proof -
    have "(2::rat) powi (e - 52) = 2 powi e * 2 powi (- 52)"
      by (simp add: power_int_diff power_int_minus_divide del: power_int_numeral_neg_numeral)
    then show ?thesis by (simp add: u_def)
  qed
  have "2 powi e / 2 ^ 53 \<le> v / (2 ^ 53 :: rat)" using br(1) by (simp add: divide_right_mono)
  with err u2 have rel: "\<bar>r - v\<bar> \<le> v / 2 ^ 53" by linarith
  have "v / 2 ^ 53 \<le> v" using vpos by (simp add: field_simps)
  with rel have "\<bar>r\<bar> \<le> 2 * v" by linarith
  also have "\<dots> < 2 * 2 ^ 1023" using assms(2) by simp
  finally have "\<bar>r\<bar> < 2 ^ 1024" by simp
  with b64 rel show ?thesis by simp
qed

lemma scaled_exact:
  fixes k :: nat
  assumes "k < 2 ^ 51"
  shows "NumberToBigInt (Math_round (js_times (binary64 (of_nat k / 10 ^ 6)) (Finite (10 ^ 6))))
           = Inr (int k)"
proof (cases "k = 0")
  case True
  have "\<lfloor>(1::rat) / 2\<rfloor> = 0" by (rule floor_unique) simp_all
  with True show ?thesis by (simp add: binary64_def)
next
  case False
  define K where "K = (of_nat k :: rat)"
  have K1: "1 \<le> K" using False by (simp add: K_def)
  have "(of_nat k :: rat) < of_nat (2 ^ 51)" using assms by (simp only: of_nat_less_iff)
  then have "K < 2 ^ 51" by (simp add: K_def)
  moreover have "of_nat k + (1::rat) \<le> of_nat (2 ^ 51)"
    using assms by (metis Suc_leI of_nat_Suc of_nat_le_iff semiring_1_class.of_nat_simps(2) add.commute)
  ultimately have Kup: "K \<le> 2 ^ 51 - 1" by (simp add: K_def)
  define v where "v = K / 10 ^ 6"
  have vlo: "2 powi (- 1022) \<le> v"
  proof -
    have "(2::rat) powi (- 1022) \<le> 1 / 10 ^ 6" by simp
    also have "\<dots> \<le> v" using K1 by (simp add: v_def divide_right_mono)
    finally show ?thesis .
  qed
  have vhi: "v < 2 ^ 1023"
  proof -
    have "v \<le> K" using K1 by (simp add: v_def field_simps)
    also have "K < 2 ^ 1023" using Kup by (simp add: order_le_less_trans)
    finally show ?thesis .
  qed
  obtain x where x: "binary64 v = Finite x" "\<bar>x - v\<bar> \<le> v / 2 ^ 53"
    using binary64_rel_error [OF vlo vhi] by blast
  define p where "p = x * 10 ^ 6"
  have pk: "\<bar>p - K\<bar> \<le> K / 2 ^ 53"
  proof -
    have eq: "p - K = (x - v) * 10 ^ 6" by (simp add: p_def v_def field_simps)
    have "\<bar>p - K\<bar> = \<bar>x - v\<bar> * \<bar>10 ^ 6 :: rat\<bar>" unfolding eq by (rule abs_mult)
    also have "\<dots> = \<bar>x - v\<bar> * 10 ^ 6" by simp
    also have "\<dots> \<le> v / 2 ^ 53 * 10 ^ 6" using x(2) by (simp add: mult_right_mono)
    also have "\<dots> = K / 2 ^ 53" by (simp add: v_def)
    finally show ?thesis .
  qed
  have small: "K / 2 ^ 53 < 1 / 4" using Kup by (simp add: field_simps)
  have plo: "2 powi (- 1022) \<le> p"
  proof -
    have "(2::rat) powi (- 1022) \<le> 3 / 4" by simp
    also have "\<dots> \<le> p" using pk small K1 by linarith
    finally show ?thesis .
  qed
  have pup: "p \<le> K + K / 2 ^ 53" using pk by linarith
  have phi: "p < 2 ^ 1023"
  proof -
    have "p < K + 1" using pup small by linarith
    also have "\<dots> \<le> 2 ^ 51" using Kup by simp
    also have "\<dots> < (2::rat) ^ 1023" by simp
    finally show ?thesis .
  qed
  obtain y where y: "binary64 p = Finite y" "\<bar>y - p\<bar> \<le> p / 2 ^ 53"
    using binary64_rel_error [OF plo phi] by blast
  have "p / 2 ^ 53 \<le> (K + K / 2 ^ 53) / 2 ^ 53" using pup by (simp add: divide_right_mono)
  with y(2) pk have "\<bar>y - K\<bar> \<le> (K + K / 2 ^ 53) / 2 ^ 53 + K / 2 ^ 53" by linarith
  also have "\<dots> < 1 / 2" using Kup by (simp add: field_simps)
  finally have yk: "\<bar>y - K\<bar> < 1 / 2" .
  have fl: "\<lfloor>y + 1 / 2\<rfloor> = int k"
  proof (rule floor_unique)
    have "(of_int (int k) :: rat) = K" by (simp add: K_def)
    then show "of_int (int k) \<le> y + 1 / 2" using yk by linarith
    have "(of_int (int k) :: rat) = K" by (simp add: K_def)
    then show "y + 1 / 2 < of_int (int k) + 1" using yk by linarith
  qed
  have "js_times (binary64 (of_nat k / 10 ^ 6)) (Finite (10 ^ 6)) = Finite y"
    using x(1) y(1) by (simp add: v_def K_def p_def)
  then show ?thesis by (simp add: fl)
qed

subsection \<open>Decimal strings\<close>

text \<open>Digits, the value of a digit string, and printing and reading a natural number.\<close>

lemma of_char_eqD: "of_char c = (n::nat) \<Longrightarrow> of_char d = n \<Longrightarrow> c = d"
  by (metis of_char_eq_iff)

lemma small_nat_cases:
  "d < 10 \<Longrightarrow> d = 0 \<or> d = 1 \<or> d = 2 \<or> d = 3 \<or> d = 4 \<or> d = 5 \<or> d = 6 \<or> d = 7 \<or> d = 8
     \<or> d = (9::nat)"
  by arith

lemma is_digit_cases:
  assumes "is_digit c"
  shows "c \<in> set ''0123456789''"
proof -
  define n where "n = (of_char c :: nat)"
  have "48 \<le> n" "n \<le> 57" using assms by (simp_all add: is_digit_def n_def Let_def)
  then have "n - 48 < 10" "n = 48 + (n - 48)" by simp_all
  with small_nat_cases [of "n - 48"]
  consider "n = 48" | "n = 49" | "n = 50" | "n = 51" | "n = 52" | "n = 53" | "n = 54"
    | "n = 55" | "n = 56" | "n = 57" by fastforce
  then show ?thesis
  proof cases
    case 1 then have "c = CHR ''0''" unfolding n_def by (rule of_char_eqD) simp
    then show ?thesis by simp
  next
    case 2 then have "c = CHR ''1''" unfolding n_def by (rule of_char_eqD) simp
    then show ?thesis by simp
  next
    case 3 then have "c = CHR ''2''" unfolding n_def by (rule of_char_eqD) simp
    then show ?thesis by simp
  next
    case 4 then have "c = CHR ''3''" unfolding n_def by (rule of_char_eqD) simp
    then show ?thesis by simp
  next
    case 5 then have "c = CHR ''4''" unfolding n_def by (rule of_char_eqD) simp
    then show ?thesis by simp
  next
    case 6 then have "c = CHR ''5''" unfolding n_def by (rule of_char_eqD) simp
    then show ?thesis by simp
  next
    case 7 then have "c = CHR ''6''" unfolding n_def by (rule of_char_eqD) simp
    then show ?thesis by simp
  next
    case 8 then have "c = CHR ''7''" unfolding n_def by (rule of_char_eqD) simp
    then show ?thesis by simp
  next
    case 9 then have "c = CHR ''8''" unfolding n_def by (rule of_char_eqD) simp
    then show ?thesis by simp
  next
    case 10 then have "c = CHR ''9''" unfolding n_def by (rule of_char_eqD) simp
    then show ?thesis by simp
  qed
qed

lemma digit_char_digit_val: "is_digit c \<Longrightarrow> digit_char (digit_val c) = c"
  using is_digit_cases [of c] by (auto simp: digit_char_def digit_val_def)

lemma digit_val_less: "is_digit c \<Longrightarrow> digit_val c < 10"
  by (auto simp: is_digit_def digit_val_def Let_def)

lemma digit_val_pos: "is_digit c \<Longrightarrow> c \<noteq> CHR ''0'' \<Longrightarrow> 0 < digit_val c"
  using is_digit_cases [of c] by (auto simp: digit_val_def)

lemma digit_not_other:
  assumes "is_digit c"
  shows "\<not> is_space c" "c \<noteq> CHR ''-''" "c \<noteq> CHR ''+''" "c \<noteq> CHR ''.''" "c \<noteq> CHR ''I''"
    "c \<noteq> CHR ''x''" "c \<noteq> CHR ''X''" "c \<noteq> CHR ''o''" "c \<noteq> CHR ''O''" "c \<noteq> CHR ''b''"
    "c \<noteq> CHR ''B''"
  using assms by (auto simp: is_digit_def is_space_def Let_def)

lemma digit_char_is_digit: "d < 10 \<Longrightarrow> is_digit (digit_char d) \<and> digit_val (digit_char d) = d"
  using small_nat_cases [of d]
  by (auto simp: digit_char_def is_digit_def digit_val_def Let_def)

lemma decimal_value_Nil: "decimal_value [] = 0"
  by (simp add: decimal_value_def digits_value_def)

lemma decimal_value_snoc: "decimal_value (s @ [c]) = 10 * decimal_value s + digit_val c"
  by (simp add: decimal_value_def digits_value_def)

lemma decimal_value_append:
  "decimal_value (a @ b) = decimal_value a * 10 ^ length b + decimal_value b"
proof (induction b rule: rev_induct)
  case Nil
  then show ?case by (simp add: decimal_value_Nil)
next
  case (snoc c b)
  have "decimal_value (a @ b @ [c]) = 10 * decimal_value (a @ b) + digit_val c"
    using decimal_value_snoc [of "a @ b" c] by simp
  with snoc show ?case by (simp add: decimal_value_snoc algebra_simps)
qed

lemma decimal_value_less: "list_all is_digit s \<Longrightarrow> decimal_value s < 10 ^ length s"
proof (induction s rule: rev_induct)
  case Nil
  then show ?case by (simp add: decimal_value_Nil)
next
  case (snoc c s)
  then have "decimal_value s < 10 ^ length s" "digit_val c < 10"
    by (simp_all add: digit_val_less)
  then have "10 * decimal_value s + digit_val c < 10 * 10 ^ length s" by linarith
  then show ?case by (simp add: decimal_value_snoc)
qed

lemma decimal_value_0: "decimal_value ''0'' = 0"
  by (simp add: decimal_value_def digits_value_def digit_val_def)

lemma decimal_value_zeros: "decimal_value (replicate n (CHR ''0'')) = 0"
proof (induction n)
  case 0
  then show ?case by (simp add: decimal_value_Nil)
next
  case (Suc n)
  have "replicate (Suc n) (CHR ''0'') = replicate n (CHR ''0'') @ ''0''"
    by (simp add: replicate_append_same)
  then have "decimal_value (replicate (Suc n) (CHR ''0''))
      = 10 * decimal_value (replicate n (CHR ''0'')) + digit_val (CHR ''0'')"
    by (simp only: decimal_value_snoc)
  with Suc show ?case by (simp add: digit_val_def)
qed

lemma decimal_value_pos:
  assumes "list_all is_digit s" "s \<noteq> []" "hd s \<noteq> CHR ''0''"
  shows "0 < decimal_value s"
proof -
  obtain c cs where s: "s = c # cs" using assms(2) by (cases s) auto
  have "decimal_value ([c] @ cs) = decimal_value [c] * 10 ^ length cs + decimal_value cs"
    by (rule decimal_value_append)
  moreover have "decimal_value [c] = digit_val c"
    using decimal_value_snoc [of "[]" c] by (simp add: decimal_value_Nil)
  moreover have "0 < digit_val c" using assms s by (simp add: digit_val_pos)
  ultimately show ?thesis using s by simp
qed

lemma show_small: "d < 10 \<Longrightarrow> show_nat_radix 10 d = [digit_char d]"
  by (simp add: show_nat_radix.simps)

lemma show_step:
  "0 < a \<Longrightarrow> d < 10 \<Longrightarrow> show_nat_radix 10 (10 * a + d) = show_nat_radix 10 a @ [digit_char d]"
  by (subst show_nat_radix.simps) simp

lemma show_decimal_value:
  "list_all is_digit s \<Longrightarrow> s \<noteq> [] \<Longrightarrow> hd s \<noteq> CHR ''0'' \<Longrightarrow>
   show_nat_radix 10 (decimal_value s) = s"
proof (induction s rule: rev_induct)
  case Nil
  then show ?case by simp
next
  case (snoc c s)
  then have c: "is_digit c" by simp
  show ?case
  proof (cases "s = []")
    case True
    have "decimal_value [c] = digit_val c"
      using decimal_value_snoc [of "[]" c] by (simp add: decimal_value_Nil)
    with True c show ?thesis by (simp add: show_small digit_val_less digit_char_digit_val)
  next
    case False
    with snoc have d: "list_all is_digit s" and h: "hd s \<noteq> CHR ''0''" by simp_all
    from snoc.IH [OF d False h] have ih: "show_nat_radix 10 (decimal_value s) = s" .
    have "0 < decimal_value s" using d False h by (rule decimal_value_pos)
    then show ?thesis
      using c by (simp add: decimal_value_snoc show_step digit_val_less ih digit_char_digit_val)
  qed
qed

lemma show_digits:
  "list_all is_digit (show_nat_radix 10 n) \<and> show_nat_radix 10 n \<noteq> []
   \<and> decimal_value (show_nat_radix 10 n) = n"
proof (induction n rule: less_induct)
  case (less n)
  show ?case
  proof (cases "n < 10")
    case True
    have "decimal_value [digit_char n] = digit_val (digit_char n)"
      using decimal_value_snoc [of "[]" "digit_char n"] by (simp add: decimal_value_Nil)
    with True show ?thesis by (simp add: show_small digit_char_is_digit)
  next
    case False
    then have "n div 10 < n" by simp
    from less [OF this] have ih: "list_all is_digit (show_nat_radix 10 (n div 10))"
      "decimal_value (show_nat_radix 10 (n div 10)) = n div 10" by simp_all
    have s: "show_nat_radix 10 n = show_nat_radix 10 (n div 10) @ [digit_char (n mod 10)]"
      using False by (subst show_nat_radix.simps) simp
    have "n mod 10 < 10" by simp
    then have dc: "is_digit (digit_char (n mod 10))" "digit_val (digit_char (n mod 10)) = n mod 10"
      by (simp_all add: digit_char_is_digit)
    show ?thesis unfolding s using ih dc by (simp add: decimal_value_snoc)
  qed
qed

lemma padStart_decimal_value:
  "list_all is_digit g \<Longrightarrow> g \<noteq> [] \<Longrightarrow>
   padStart (length g) (show_nat_radix 10 (decimal_value g)) = g"
proof (induction g)
  case Nil
  then show ?case by simp
next
  case (Cons c cs)
  show ?case
  proof (cases "c = CHR ''0''")
    case False
    with Cons.prems have "show_nat_radix 10 (decimal_value (c # cs)) = c # cs"
      by (intro show_decimal_value) simp_all
    then show ?thesis by (simp add: padStart_def)
  next
    case True
    have "decimal_value ([c] @ cs) = decimal_value [c] * 10 ^ length cs + decimal_value cs"
      by (rule decimal_value_append)
    moreover have "decimal_value [c] = 0"
      using decimal_value_snoc [of "[]" c] True by (simp add: decimal_value_Nil digit_val_def)
    ultimately have dv: "decimal_value (c # cs) = decimal_value cs" by simp
    show ?thesis
    proof (cases "cs = []")
      case cs: True
      with True show ?thesis
        by (simp add: decimal_value_0 show_small digit_char_def padStart_def)
    next
      case cs: False
      with Cons have ih: "padStart (length cs) (show_nat_radix 10 (decimal_value cs)) = cs"
        by simp
      define x where "x = show_nat_radix 10 (decimal_value cs)"
      have "length (padStart (length cs) x) = length cs" using ih by (simp add: x_def)
      then have le: "length x \<le> length cs" by (simp add: padStart_def)
      then have "padStart (Suc (length cs)) x = CHR ''0'' # padStart (length cs) x"
        by (simp add: padStart_def Suc_diff_le)
      with ih have "padStart (Suc (length cs)) x = CHR ''0'' # cs" by (simp add: x_def)
      then have "padStart (length (c # cs)) (show_nat_radix 10 (decimal_value (c # cs)))
          = CHR ''0'' # cs"
        unfolding dv x_def by simp
      with True show ?thesis by simp
    qed
  qed
qed

lemma dropWhile_replicate_same: "P z \<Longrightarrow> dropWhile P (replicate n z @ ys) = dropWhile P ys"
  by (induction n) simp_all

lemma strip_trailing_zeros_pad:
  "strip_trailing_zeros (fp @ replicate n (CHR ''0'')) = strip_trailing_zeros fp"
  by (simp add: strip_trailing_zeros_def dropWhile_replicate_same)

lemma radix_digit_10: "is_digit c \<Longrightarrow> radix_digit 10 c = Some (digit_val c)"
  by (auto simp: radix_digit_def is_digit_def digit_val_def Let_def)

lemma parse_radix_digits:
  assumes "list_all is_digit s" "s \<noteq> []"
  shows "parse_radix 10 s = Some (decimal_value s)"
proof -
  have a: "list_all (\<lambda>c. radix_digit 10 c \<noteq> None) s"
    using assms(1) by (induction s) (simp_all add: radix_digit_10)
  have b: "map (\<lambda>c. the (radix_digit 10 c)) s = map digit_val s"
    using assms(1) by (induction s) (simp_all add: radix_digit_10)
  show ?thesis unfolding parse_radix_def decimal_value_def b using assms(2) a by simp
qed

lemma starts_with_two:
  "list_all is_digit s \<Longrightarrow> \<not> is_digit b \<Longrightarrow> \<not> starts_with s [a, b]"
  by (cases s; cases "tl s") auto

lemma StringToBigInt_digits:
  assumes "list_all is_digit s" "s \<noteq> []"
  shows "StringToBigInt s = Inr (int (decimal_value s))"
proof -
  obtain c cs where s: "s = c # cs" using assms(2) by (cases s) auto
  then have c: "is_digit c" using assms(1) by simp
  have l: "is_digit (last s)" using assms by (simp add: list_all_iff)
  have "dropWhile is_space s = s" using s c by (simp add: digit_not_other)
  moreover have "dropWhile is_space (rev s) = rev s"
    using l assms(2) by (cases "rev s") (auto simp: digit_not_other last_rev hd_rev)
  ultimately have t: "trim s = s" by (simp add: trim_def)
  have nd: "\<not> is_digit (CHR ''x'')" "\<not> is_digit (CHR ''X'')" "\<not> is_digit (CHR ''o'')"
    "\<not> is_digit (CHR ''O'')" "\<not> is_digit (CHR ''b'')" "\<not> is_digit (CHR ''B'')"
    by (simp_all add: is_digit_def)
  have pre: "\<not> starts_with s ''0x''" "\<not> starts_with s ''0X''" "\<not> starts_with s ''0o''"
    "\<not> starts_with s ''0O''" "\<not> starts_with s ''0b''" "\<not> starts_with s ''0B''"
    using assms(1) nd by (simp_all add: starts_with_two)
  have sg: "\<not> starts_with s ''-''" "\<not> starts_with s ''+''"
    using s c by (auto simp: digit_not_other)
  show ?thesis
    using assms(2) pre sg parse_radix_digits [OF assms]
    by (simp add: StringToBigInt_def t Let_def)
qed

lemma BigInt_div_rem_nat:
  "0 < b \<Longrightarrow> BigInt_div (int a) (int b) = int (a div b) \<and> BigInt_rem (int a) (int b) = int (a mod b)"
  by (cases "a = 0") (simp_all add: BigInt_div_def BigInt_rem_def zdiv_int zmod_int)

subsection \<open>The round trip below \<open>2\<^sup>5\<^sup>1\<close> base units\<close>

lemma takeWhile_digits: "list_all is_digit ip \<Longrightarrow> \<not> is_digit c \<Longrightarrow>
  takeWhile is_digit (ip @ c # r) = ip \<and> dropWhile is_digit (ip @ c # r) = c # r"
  by (induction ip) simp_all

lemma takeWhile_all_digits: "list_all is_digit s \<Longrightarrow>
  takeWhile is_digit s = s \<and> dropWhile is_digit s = []"
  by (induction s) simp_all

lemma not_Infinity: "is_digit c \<Longrightarrow> \<not> starts_with (c # r) ''Infinity''"
  by (auto simp: digit_not_other)

lemma parseFloat_plain_decimal:
  assumes "ip \<noteq> []" "list_all is_digit ip" "list_all is_digit fp"
  shows "parseFloat (ip @ ''.'' @ fp)
           = binary64 (of_nat (decimal_value (ip @ fp)) / 10 ^ length fp)"
proof -
  obtain c cs where ip: "ip = c # cs" using assms(1) by (cases ip) auto
  then have c: "is_digit c" using assms(2) by simp
  have nd: "\<not> is_digit (CHR ''.'')" by (simp add: is_digit_def)
  have tw: "takeWhile is_digit (ip @ CHR ''.'' # fp) = ip"
    "dropWhile is_digit (ip @ CHR ''.'' # fp) = CHR ''.'' # fp"
    using takeWhile_digits [OF assms(2) nd] by simp_all
  have fw: "takeWhile is_digit fp = fp" "dropWhile is_digit fp = []"
    using takeWhile_all_digits [OF assms(3)] by simp_all
  have ul: "unsigned_literal (ip @ CHR ''.'' # fp)
      = binary64 (scale10 (decimal_value (ip @ fp)) (- int (length fp)))"
  proof -
    have "\<not> starts_with (ip @ CHR ''.'' # fp) ''Infinity''"
      using not_Infinity [OF c] by (simp add: ip)
    then show ?thesis
      using assms(1) by (simp add: unsigned_literal_def Let_def tw fw exponent_part_def)
  qed
  have sc: "scale10 (decimal_value (ip @ fp)) (- int (length fp))
      = of_nat (decimal_value (ip @ fp)) / 10 ^ length fp"
    by (cases "fp = []") (simp_all add: scale10_def)
  have "parseFloat (ip @ CHR ''.'' # fp) = unsigned_literal (ip @ CHR ''.'' # fp)"
    using c by (simp add: parseFloat_def ip digit_not_other)
  then show ?thesis by (simp add: ul sc)
qed

lemma parseFloat_plain_integer:
  assumes "ip \<noteq> []" "list_all is_digit ip"
  shows "parseFloat ip = binary64 (of_nat (decimal_value ip))"
proof -
  obtain c cs where ip: "ip = c # cs" using assms(1) by (cases ip) auto
  then have c: "is_digit c" using assms(2) by simp
  have tw: "takeWhile is_digit ip = ip" "dropWhile is_digit ip = []"
    using takeWhile_all_digits [OF assms(2)] by simp_all
  have "\<not> starts_with ip ''Infinity''" using not_Infinity [OF c] by (simp add: ip)
  then have ul: "unsigned_literal ip = binary64 (scale10 (decimal_value ip) 0)"
    using assms(1) by (simp add: unsigned_literal_def Let_def tw exponent_part_def)
  have "parseFloat ip = unsigned_literal ip"
    using c by (simp add: parseFloat_def ip digit_not_other)
  then show ?thesis by (simp add: ul scale10_def)
qed

text \<open>The exact base-unit value of the amount with integer digits \<open>ip\<close> and fraction
  digits \<open>fp\<close>.\<close>

lemma scaled_value:
  assumes "length fp \<le> 6"
  shows "(of_nat d :: rat) / 10 ^ length fp = of_nat (d * 10 ^ (6 - length fp)) / 10 ^ 6"
proof -
  have p: "(10::rat) ^ 6 = 10 ^ (6 - length fp) * 10 ^ length fp"
    using assms by (simp add: power_add [symmetric])
  have "(of_nat (d * 10 ^ (6 - length fp)) :: rat) / 10 ^ 6
      = (of_nat d * 10 ^ (6 - length fp)) / (10 ^ (6 - length fp) * 10 ^ length fp)"
    by (simp only: p of_nat_mult of_nat_power of_nat_numeral)
  also have "\<dots> = of_nat d / 10 ^ length fp" by simp
  finally show ?thesis by simp
qed

lemma BigInt_toString_nat: "BigInt_toString (int n) = show_nat_radix 10 n"
  by (simp add: BigInt_toString_def show_int_radix_def)

lemma ten_pow_6_power: "ten_pow 6 = Finite (10 ^ 6)"
  by (simp add: ten_pow_6)

lemma rawAmount_of_scaled:
  assumes "parseFloat amount = binary64 (of_nat k / 10 ^ 6)" "k < 2 ^ 51"
  shows "rawAmount_of tokenDecimals amount = Inr (show_nat_radix 10 k)"
  unfolding rawAmount_of_def tokenDecimals_def ten_pow_6_power assms(1)
    scaled_exact [OF assms(2)]
  by (simp only: sum.case BigInt_toString_nat)

lemma rawAmount_exact_point:
  assumes "ip \<noteq> []" "list_all is_digit ip" "list_all is_digit fp" "length fp \<le> 6"
    "decimal_value (ip @ fp) * 10 ^ (6 - length fp) < 2 ^ 51"
  shows "rawAmount_of tokenDecimals (ip @ ''.'' @ fp)
         = Inr (show_nat_radix 10 (decimal_value (ip @ fp) * 10 ^ (6 - length fp)))"
proof (rule rawAmount_of_scaled [OF _ assms(5)])
  show "parseFloat (ip @ ''.'' @ fp)
      = binary64 (of_nat (decimal_value (ip @ fp) * 10 ^ (6 - length fp)) / 10 ^ 6)"
    by (simp only: parseFloat_plain_decimal [OF assms(1-3)] scaled_value [OF assms(4)])
qed

lemma rawAmount_exact_integer:
  assumes "ip \<noteq> []" "list_all is_digit ip" "decimal_value ip * 10 ^ 6 < 2 ^ 51"
  shows "rawAmount_of tokenDecimals ip = Inr (show_nat_radix 10 (decimal_value ip * 10 ^ 6))"
proof (rule rawAmount_of_scaled [OF _ assms(3)])
  have "(of_nat (decimal_value ip) :: rat) = of_nat (decimal_value ip * 10 ^ 6) / 10 ^ 6"
    by simp
  then show "parseFloat ip = binary64 (of_nat (decimal_value ip * 10 ^ 6) / 10 ^ 6)"
    by (simp only: parseFloat_plain_integer [OF assms(1,2)])
qed

lemma zeros_are_digits: "list_all is_digit (replicate n (CHR ''0''))"
  by (induction n) (simp_all add: is_digit_def)

lemma format_balance_scaled:
  assumes "ip \<noteq> []" "list_all is_digit ip" "hd ip \<noteq> CHR ''0'' \<or> ip = ''0''"
    "list_all is_digit fp" "length fp \<le> 6"
  shows "format_balance tokenDecimals
           (show_nat_radix 10 (decimal_value (ip @ fp) * 10 ^ (6 - length fp)))
         = Inr (ip @ (if strip_trailing_zeros fp = [] then []
                     else ''.'' @ strip_trailing_zeros fp))"
proof -
  define g where "g = fp @ replicate (6 - length fp) (CHR ''0'')"
  define k where "k = decimal_value (ip @ fp) * 10 ^ (6 - length fp)"
  have glen: "length g = 6" using assms(5) by (simp add: g_def)
  have gdig: "list_all is_digit g" using assms(4) by (simp add: g_def zeros_are_digits)
  have gne: "g \<noteq> []" using glen by auto
  have kv: "k = decimal_value (ip @ g)"
    by (simp add: k_def g_def decimal_value_append [of "ip @ fp"] decimal_value_zeros
        append_assoc [symmetric] del: append_assoc)
  then have k2: "k = decimal_value ip * 10 ^ 6 + decimal_value g"
    by (simp add: decimal_value_append glen)
  have gl: "decimal_value g < 10 ^ 6" using decimal_value_less [OF gdig] by (simp add: glen)
  have kd: "k div 10 ^ 6 = decimal_value ip" "k mod 10 ^ 6 = decimal_value g"
    using gl by (simp_all add: k2)
  have si: "show_nat_radix 10 (decimal_value ip) = ip"
  proof (cases "ip = ''0''")
    case True
    then show ?thesis by (simp add: decimal_value_0 show_small digit_char_def)
  next
    case False
    with assms show ?thesis by (intro show_decimal_value) simp_all
  qed
  have sf: "padStart 6 (show_nat_radix 10 (decimal_value g)) = g"
    using padStart_decimal_value [OF gdig gne] by (simp add: glen)
  have st: "strip_trailing_zeros g = strip_trailing_zeros fp"
    by (simp add: g_def strip_trailing_zeros_pad)
  have sd: "list_all is_digit (show_nat_radix 10 k)" "show_nat_radix 10 k \<noteq> []"
    "decimal_value (show_nat_radix 10 k) = k"
    using show_digits [of k] by simp_all
  have parse: "StringToBigInt (show_nat_radix 10 k) = Inr (int k)"
    using StringToBigInt_digits [OF sd(1,2)] sd(3) by simp
  have dr: "BigInt_div (int k) 1000000 = int (decimal_value ip)"
    "BigInt_rem (int k) 1000000 = int (decimal_value g)"
    using BigInt_div_rem_nat [of 1000000 k] kd by simp_all
  show ?thesis
    unfolding k_def [symmetric]
    by (simp add: format_balance_def tokenDecimals_def parse ten_pow_6 dr BigInt_toString_def
        show_int_radix_def si sf st)
qed

text \<open>
  The round trip of the Tron path, where it holds. An amount is written with integer
  digits \<open>ip\<close> (no leading zero, unless it is \<^verbatim>\<open>0\<close>) and at most six fraction digits \<open>fp\<close>,
  with or without the point when there is no fraction. When its value in base units is
  below \<open>2\<^sup>5\<^sup>1\<close>, the mint and burn conversion gives exactly that value, and the balance
  formatting of it gives the amount back with the trailing zeros of the fraction (and
  a bare point) removed.
\<close>

theorem tron_round_trip_below_2_51:
  assumes "ip \<noteq> []" "list_all is_digit ip" "hd ip \<noteq> CHR ''0'' \<or> ip = ''0''"
    "list_all is_digit fp" "length fp \<le> tokenDecimals"
    "decimal_value (ip @ fp) * 10 ^ (tokenDecimals - length fp) < 2 ^ 51"
    "amount = ip @ ''.'' @ fp \<or> amount = ip \<and> fp = []"
  shows "\<exists>raw. rawAmount_of tokenDecimals amount = Inr raw
           \<and> raw = BigInt_toString
                     (int (decimal_value (ip @ fp) * 10 ^ (tokenDecimals - length fp)))
           \<and> format_balance tokenDecimals raw
               = Inr (ip @ (if strip_trailing_zeros fp = [] then []
                           else ''.'' @ strip_trailing_zeros fp))"
proof -
  have l: "length fp \<le> 6" and b: "decimal_value (ip @ fp) * 10 ^ (6 - length fp) < 2 ^ 51"
    using assms(5,6) by (simp_all add: tokenDecimals_def)
  have raw: "rawAmount_of tokenDecimals amount
      = Inr (show_nat_radix 10 (decimal_value (ip @ fp) * 10 ^ (6 - length fp)))"
  proof (cases "amount = ip @ ''.'' @ fp")
    case True
    then show ?thesis using rawAmount_exact_point [OF assms(1,2,4) l b] by simp
  next
    case False
    with assms(7) have "amount = ip" "fp = []" by simp_all
    then show ?thesis using rawAmount_exact_integer [OF assms(1,2)] b by simp
  qed
  have "\<exists>raw. rawAmount_of 6 amount = Inr raw
           \<and> raw = show_nat_radix 10 (decimal_value (ip @ fp) * 10 ^ (6 - length fp))
           \<and> format_balance 6 raw
               = Inr (ip @ (if strip_trailing_zeros fp = [] then []
                           else ''.'' @ strip_trailing_zeros fp))"
    using raw format_balance_scaled [OF assms(1-4) l] unfolding tokenDecimals_def by blast
  then show ?thesis unfolding tokenDecimals_def BigInt_toString_nat .
qed

theorem tron_round_trip_below_2_51_witness:
  "\<exists>raw. rawAmount_of tokenDecimals ''123456789.123456'' = Inr raw
     \<and> raw = ''123456789123456''
     \<and> format_balance tokenDecimals raw = Inr ''123456789.123456''"
proof -
  have d: "list_all is_digit ''123456789''" "list_all is_digit ''123456''"
    by (simp_all add: is_digit_def)
  have v: "decimal_value (''123456789'' @ ''123456'') = 123456789123456"
    by (simp add: decimal_value_def digits_value_def digit_val_def)
  have s: "strip_trailing_zeros ''123456'' = ''123456''"
    by (simp add: strip_trailing_zeros_def)
  have t: "BigInt_toString 123456789123456 = ''123456789123456''"
    by (simp add: bigint_defs)
  from tron_round_trip_below_2_51 [of "''123456789''" "''123456''" "''123456789.123456''"]
    d v s t
  show ?thesis by (simp add: tokenDecimals_def)
qed

end
